theory Spec2Isabelle
  imports Complex_Main
begin

section \<open>Python values and run-time behaviour used by the recommender\<close>

text \<open>
  Exceptions of the source are values: a function that can raise returns
  \<open>py_error + 'a\<close>, with \<open>Inl\<close> the exception. Numbers that the source holds in
  Python floats are modelled in exact arithmetic (\<open>real\<close>); Python's unbounded
  integers are \<open>int\<close>.
\<close>

datatype py_error =
  ValueError | KeyError | TypeError | AttributeError | IndexError
  | ZeroDivisionError | DatabaseError

definition bind_e :: "py_error + 'a \<Rightarrow> ('a \<Rightarrow> py_error + 'b) \<Rightarrow> py_error + 'b" where
  "bind_e m f = (case m of Inl e \<Rightarrow> Inl e | Inr x \<Rightarrow> f x)"

text \<open>The slice \<open>xs[:k]\<close>: a negative \<open>k\<close> counts from the end of the list.\<close>

definition py_take :: "int \<Rightarrow> 'a list \<Rightarrow> 'a list" where
  "py_take k xs =
     (if 0 \<le> k then take (nat k) xs else take (length xs - nat (- k)) xs)"


text \<open>\<open>str(n)\<close> and the \<open>{n}\<close> of an f-string, for an integer.\<close>

fun digits_of :: "nat \<Rightarrow> string" where
  "digits_of n =
     (if n < 10 then [''0123456789'' ! n]
      else digits_of (n div 10) @ [''0123456789'' ! (n mod 10)])"

definition str_int :: "int \<Rightarrow> string" where
  "str_int i = (if i < 0 then CHR ''-'' # digits_of (nat (- i)) else digits_of (nat i))"

section \<open>Data model of the engine (ml_recommendations.py)\<close>

text \<open>A row of the \<open>products\<close> table, with the columns the engine selects.\<close>

record product =
  p_id :: int
  p_name :: string
  p_brand :: string
  p_category :: string
  p_subcategory :: string
  p_color :: string
  p_price :: real
  p_image_url :: string
  p_target_gender :: string
  p_target_age_min :: int
  p_target_age_max :: int
  p_popularity_score :: real
  p_in_stock :: bool

text \<open>
  The dictionary \<open>get_hybrid_recommendations\<close> returns for a product: the product's
  details, updated with the score and the source of the recommendation.
\<close>

record recommended = product +
  recommendation_score :: real
  recommendation_source :: string

text \<open>
  The user profile, a dictionary whose keys are all optional (\<open>None\<close>: the key is
  absent). The engine reads \<open>color\<close> and \<open>style\<close>, the functions of
  utils/recommender.py read \<open>color_pref\<close> and \<open>style_pref\<close>.
\<close>

record user_profile =
  u_user_id :: "int option"
  u_age :: "int option"
  u_gender :: "string option"
  u_color :: "string option"
  u_style :: "string option"
  u_budget :: "real option"
  u_color_pref :: "string option"
  u_style_pref :: "string option"

text \<open>\<open>d.get(key, default)\<close>.\<close>

definition dict_get :: "'a option \<Rightarrow> 'a \<Rightarrow> 'a" where
  "dict_get v d = (case v of None \<Rightarrow> d | Some x \<Rightarrow> x)"

record outfit_item =
  it_type :: string
  it_name :: string
  it_brand :: string
  it_price :: real
  it_image_url :: string

record outfit =
  o_outfit_id :: string
  o_name :: string
  o_description :: string
  o_items :: "outfit_item list"
  o_total_price :: real
  o_style :: string
  o_color_scheme :: string
  o_target_gender :: string
  o_target_age :: string
  o_in_stock :: bool

section \<open>Outfit assembler: create_outfit_from_products, create_complete_outfits\<close>

text \<open>The slot of a product, by the category tables of the source.\<close>

definition item_type_of :: "recommended \<Rightarrow> string" where
  "item_type_of product =
     (if p_category product \<in> set [''shirts'', ''tops'', ''hoodies'', ''jackets''] then ''top''
      else if p_category product \<in> set [''jeans'', ''trousers'', ''shorts''] then ''bottom''
      else if p_subcategory product = ''shoes'' then ''shoes''
      else ''accessory'')"

definition item_of :: "recommended \<Rightarrow> outfit_item" where
  "item_of product =
     \<lparr>it_type = item_type_of product, it_name = p_name product, it_brand = p_brand product,
      it_price = p_price product, it_image_url = p_image_url product\<rparr>"

text \<open>
  The state of the loop over the products of a group: the items collected so far, the
  running total and the dictionary \<open>item_types\<close> (a slot that still holds Python's
  \<open>None\<close> maps to \<open>None\<close>).
\<close>

record assembly =
  outfit_items :: "outfit_item list"
  total_price :: real
  item_types :: "string \<Rightarrow> recommended option"

definition assembly_init :: assembly where
  "assembly_init = \<lparr>outfit_items = [], total_price = 0, item_types = (\<lambda>_. None)\<rparr>"

definition add_product :: "recommended \<Rightarrow> assembly \<Rightarrow> assembly" where
  "add_product product st =
     (let item_type = item_type_of product in
      if item_types st item_type = None
      then \<lparr>outfit_items = outfit_items st @ [item_of product],
            total_price = total_price st + p_price product,
            item_types = (item_types st)(item_type := Some product)\<rparr>
      else st)"

definition create_outfit_from_products :: "recommended list \<Rightarrow> user_profile \<Rightarrow> outfit option" where
  "create_outfit_from_products products user_preferences =
     (let st = fold add_product products assembly_init in
      if 2 \<le> length (outfit_items st)
      then Some
        \<lparr>o_outfit_id = ''generated_'' @ str_int (int (length (outfit_items st))),
         o_name = dict_get (u_style user_preferences) ''Casual'' @ '' ''
                  @ dict_get (u_color user_preferences) ''Multi'' @ '' Outfit'',
         o_description = ''Complete '' @ dict_get (u_style user_preferences) ''casual''
                  @ '' outfit with '' @ str_int (int (length (outfit_items st))) @ '' items'',
         o_items = outfit_items st,
         o_total_price = total_price st,
         o_style = dict_get (u_style user_preferences) ''casual'',
         o_color_scheme = dict_get (u_color user_preferences) ''multi'',
         o_target_gender = dict_get (u_gender user_preferences) ''unisex'',
         o_target_age = str_int (dict_get (u_age user_preferences) 25),
         o_in_stock = True\<rparr>
      else None)"

text \<open>
  \<open>style_groups\<close>: a dictionary from category to the products of that category, in
  insertion order (the order of first appearance of each category).
\<close>

fun group_add :: "recommended \<Rightarrow> (string \<times> recommended list) list \<Rightarrow> (string \<times> recommended list) list" where
  "group_add r [] = [(p_category r, [r])]"
| "group_add r ((s, ps) # gs) =
     (if s = p_category r then (s, ps @ [r]) # gs else (s, ps) # group_add r gs)"

definition style_groups :: "recommended list \<Rightarrow> (string \<times> recommended list) list" where
  "style_groups recommendations = fold group_add recommendations []"

definition create_complete_outfits :: "recommended list \<Rightarrow> user_profile \<Rightarrow> outfit list" where
  "create_complete_outfits recommendations user_preferences =
     py_take 5 (List.map_filter
        (\<lambda>(style, products). create_outfit_from_products products user_preferences)
        (style_groups recommendations))"

section \<open>Collaborators of the engine: database rows, matrices, the Python run time\<close>

text \<open>
  A value held by a row that the database returns (a pandas Series): a string, a
  number, an integer or SQL's NULL. Reading a column the query did not select raises
  KeyError; a string method on a value that is no string raises AttributeError; an
  order comparison or a product with a value that is no number raises TypeError.
\<close>

datatype cell = S string | N real | I int | Null

type_synonym row = "string \<rightharpoonup> cell"

definition row_get :: "row \<Rightarrow> string \<Rightarrow> py_error + cell" where
  "row_get r k = (case r k of None \<Rightarrow> Inl KeyError | Some v \<Rightarrow> Inr v)"

fun as_str :: "cell \<Rightarrow> py_error + string" where
  "as_str (S s) = Inr s"
| "as_str _ = Inl AttributeError"

fun as_num :: "cell \<Rightarrow> py_error + real" where
  "as_num (N x) = Inr x"
| "as_num (I i) = Inr (real_of_int i)"
| "as_num _ = Inl TypeError"

definition product_columns :: "product \<Rightarrow> (string \<times> cell) list" where
  "product_columns p =
     [(''id'', I (p_id p)), (''name'', S (p_name p)), (''brand'', S (p_brand p)),
      (''category'', S (p_category p)), (''subcategory'', S (p_subcategory p)),
      (''color'', S (p_color p)), (''price'', N (p_price p)),
      (''image_url'', S (p_image_url p)), (''target_gender'', S (p_target_gender p)),
      (''target_age_min'', I (p_target_age_min p)),
      (''target_age_max'', I (p_target_age_max p)),
      (''popularity_score'', N (p_popularity_score p))]"

text \<open>The row a \<open>SELECT\<close> with the given column list returns for a product.\<close>

definition select_row :: "string list \<Rightarrow> product \<Rightarrow> row" where
  "select_row cols p = map_of (filter (\<lambda>kv. fst kv \<in> set cols) (product_columns p))"

text \<open>ASCII lower-casing, for \<open>str.lower\<close>.\<close>

definition lower_char :: "char \<Rightarrow> char" where
  "lower_char c =
     (case map_of (zip ''ABCDEFGHIJKLMNOPQRSTUVWXYZ'' ''abcdefghijklmnopqrstuvwxyz'') c of
        None \<Rightarrow> c
      | Some l \<Rightarrow> l)"

definition lower :: "string \<Rightarrow> string" where
  "lower s = map lower_char s"

text \<open>
  What the Python run time decides and the source does not: the hash of a string
  (salted per interpreter process) and the slot at which a set holds an element. A set
  is enumerated in slot order, so \<open>list(set(xs))\<close> is the distinct elements of \<open>xs\<close>
  ordered by slot.
\<close>

record py_runtime =
  str_hash :: "string \<Rightarrow> int"
  str_slot :: "string \<Rightarrow> nat"
  int_slot :: "int \<Rightarrow> nat"

definition set_order :: "('a \<Rightarrow> nat) \<Rightarrow> 'a list \<Rightarrow> 'a list" where
  "set_order slot xs = sort_key slot (remdups xs)"

text \<open>The user-item matrix: a pandas frame with its row labels and column labels.\<close>

record matrix =
  m_index :: "int list"
  m_columns :: "int list"
  m_values :: "real list list"

text \<open>
  The state of the engine: the connection (the \<open>products\<close> table it reads, \<open>None\<close>
  when there is no connection and every query raises), the user-item matrix and the
  trained SVD model, represented by its \<open>components_\<close> (one row per latent component,
  one entry per column of the matrix).
\<close>

record engine =
  conn :: "product list option"
  user_item_matrix :: "matrix option"
  svd_model :: "real list list option"

text \<open>\<open>Index.get_loc\<close> and \<open>list.index\<close>: the position of the first occurrence.\<close>

fun get_loc :: "'a list \<Rightarrow> 'a \<Rightarrow> nat option" where
  "get_loc [] x = None"
| "get_loc (y # ys) x = (if y = x then Some 0 else map_option Suc (get_loc ys x))"

definition nth_e :: "'a list \<Rightarrow> nat \<Rightarrow> py_error + 'a" where
  "nth_e xs i = (if i < length xs then Inr (xs ! i) else Inl IndexError)"

text \<open>A loop that appends one result per element and stops at the first exception.\<close>

fun map_e :: "('a \<Rightarrow> py_error + 'b) \<Rightarrow> 'a list \<Rightarrow> py_error + 'b list" where
  "map_e f [] = Inr []"
| "map_e f (x # xs) =
     (case f x of Inl e \<Rightarrow> Inl e
      | Inr y \<Rightarrow> (case map_e f xs of Inl e \<Rightarrow> Inl e | Inr ys \<Rightarrow> Inr (y # ys)))"

text \<open>\<open>LIMIT n\<close> of SQLite: a negative limit is no limit.\<close>

definition sql_limit :: "int \<Rightarrow> 'a list \<Rightarrow> 'a list" where
  "sql_limit n xs = (if n < 0 then xs else take (nat n) xs)"

text \<open>
  \<open>WHERE in_stock = TRUE ORDER BY popularity_score DESC\<close>; rows of equal popularity
  are kept in table order.
\<close>

definition in_stock_by_popularity :: "product list \<Rightarrow> product list" where
  "in_stock_by_popularity tbl = sort_key (\<lambda>p. - p_popularity_score p) (filter p_in_stock tbl)"

section \<open>Preference matcher: calculate_preference_score\<close>

definition score_gender :: "row \<Rightarrow> user_profile \<Rightarrow> real \<Rightarrow> py_error + real" where
  "score_gender product preferences score =
     (case u_gender preferences of
        None \<Rightarrow> Inr score
      | Some g \<Rightarrow>
          bind_e (row_get product ''target_gender'') (\<lambda>tg.
            if tg = S ''unisex'' \<or> tg = S g then Inr (score + 30) else Inr (score - 20)))"

definition score_color :: "row \<Rightarrow> user_profile \<Rightarrow> real \<Rightarrow> py_error + real" where
  "score_color product preferences score =
     (case u_color preferences of
        None \<Rightarrow> Inr score
      | Some c \<Rightarrow>
          bind_e (row_get product ''color'') (\<lambda>v. bind_e (as_str v) (\<lambda>pc.
            if lower pc = lower c then Inr (score + 25) else Inr score)))"

definition score_style :: "row \<Rightarrow> user_profile \<Rightarrow> real \<Rightarrow> py_error + real" where
  "score_style product preferences score =
     (case u_style preferences of
        None \<Rightarrow> Inr score
      | Some st \<Rightarrow>
          bind_e (row_get product ''category'') (\<lambda>v. bind_e (as_str v) (\<lambda>pc.
            if lower pc = lower st then Inr (score + 25) else Inr score)))"

definition score_budget :: "row \<Rightarrow> user_profile \<Rightarrow> real \<Rightarrow> py_error + real" where
  "score_budget product preferences score =
     (case u_budget preferences of
        None \<Rightarrow> Inr score
      | Some b \<Rightarrow>
          bind_e (row_get product ''price'') (\<lambda>v. bind_e (as_num v) (\<lambda>price.
            if price \<le> b
            then (if price \<le> b * 0.5 then Inr (score + 15) else Inr (score + 10))
            else Inr (score - 15))))"

definition score_age :: "row \<Rightarrow> user_profile \<Rightarrow> real \<Rightarrow> py_error + real" where
  "score_age product preferences score =
     (case u_age preferences of
        None \<Rightarrow> Inr score
      | Some age \<Rightarrow>
          bind_e (row_get product ''target_age_min'') (\<lambda>v. bind_e (as_num v) (\<lambda>amin.
            if amin \<le> real_of_int age
            then bind_e (row_get product ''target_age_max'') (\<lambda>w. bind_e (as_num w) (\<lambda>amax.
                   if real_of_int age \<le> amax then Inr (score + 20)
                   else if \<bar>real_of_int age - amin\<bar> \<le> 5 \<or> \<bar>real_of_int age - amax\<bar> \<le> 5
                        then Inr (score + 10) else Inr score))
            else if \<bar>real_of_int age - amin\<bar> \<le> 5 then Inr (score + 10)
            else bind_e (row_get product ''target_age_max'') (\<lambda>w. bind_e (as_num w) (\<lambda>amax.
                   if \<bar>real_of_int age - amax\<bar> \<le> 5 then Inr (score + 10) else Inr score)))))"

definition calculate_preference_score :: "row \<Rightarrow> user_profile \<Rightarrow> py_error + real" where
  "calculate_preference_score product preferences =
     bind_e (score_gender product preferences 0) (\<lambda>score.
     bind_e (score_color product preferences score) (\<lambda>score.
     bind_e (score_style product preferences score) (\<lambda>score.
     bind_e (score_budget product preferences score) (\<lambda>score.
     bind_e (score_age product preferences score) (\<lambda>score.
     bind_e (row_get product ''popularity_score'') (\<lambda>v. bind_e (as_num v) (\<lambda>pop.
       Inr (score + pop * 0.1))))))))"

text \<open>
  The rules as the specification words them, on a product with all its fields: one
  summand per rule, a rule counting only when its preference key is present.
\<close>

definition rule_gender :: "product \<Rightarrow> user_profile \<Rightarrow> real" where
  "rule_gender p prefs =
     (case u_gender prefs of None \<Rightarrow> 0
      | Some g \<Rightarrow> if p_target_gender p = ''unisex'' \<or> p_target_gender p = g then 30 else - 20)"

definition rule_color :: "product \<Rightarrow> user_profile \<Rightarrow> real" where
  "rule_color p prefs =
     (case u_color prefs of None \<Rightarrow> 0
      | Some c \<Rightarrow> if lower (p_color p) = lower c then 25 else 0)"

definition rule_style :: "product \<Rightarrow> user_profile \<Rightarrow> real" where
  "rule_style p prefs =
     (case u_style prefs of None \<Rightarrow> 0
      | Some st \<Rightarrow> if lower (p_category p) = lower st then 25 else 0)"

definition rule_budget :: "product \<Rightarrow> user_profile \<Rightarrow> real" where
  "rule_budget p prefs =
     (case u_budget prefs of None \<Rightarrow> 0
      | Some b \<Rightarrow> if p_price p \<le> b then (if p_price p \<le> 0.5 * b then 15 else 10) else - 15)"

definition rule_age :: "product \<Rightarrow> user_profile \<Rightarrow> real" where
  "rule_age p prefs =
     (case u_age prefs of None \<Rightarrow> 0
      | Some age \<Rightarrow>
          if p_target_age_min p \<le> age \<and> age \<le> p_target_age_max p then 20
          else if \<bar>age - p_target_age_min p\<bar> \<le> 5 \<or> \<bar>age - p_target_age_max p\<bar> \<le> 5 then 10
          else 0)"

definition preference_rules :: "product \<Rightarrow> user_profile \<Rightarrow> real" where
  "preference_rules p prefs =
     rule_gender p prefs + rule_color p prefs + rule_style p prefs + rule_budget p prefs
     + rule_age p prefs + 0.1 * p_popularity_score p"

section \<open>Queries of the engine\<close>

definition get_popular_items :: "engine \<Rightarrow> int \<Rightarrow> (int \<times> real) list" where
  "get_popular_items eng n_items =
     (case conn eng of
        None \<Rightarrow> []
      | Some tbl \<Rightarrow>
          map (\<lambda>p. (p_id p, p_popularity_score p)) (sql_limit n_items (in_stock_by_popularity tbl)))"

definition get_product_details :: "engine \<Rightarrow> int \<Rightarrow> product option" where
  "get_product_details eng product_id =
     (case conn eng of
        None \<Rightarrow> None
      | Some tbl \<Rightarrow>
          (case filter (\<lambda>p. p_id p = product_id \<and> p_in_stock p) tbl of
             [] \<Rightarrow> None
           | p # _ \<Rightarrow> Some p))"

text \<open>The columns that the query of \<open>find_products_by_preferences\<close> selects.\<close>

definition find_columns :: "string list" where
  "find_columns =
     [''id'', ''name'', ''brand'', ''category'', ''color'', ''price'', ''target_gender'',
      ''target_age_min'', ''target_age_max'']"

text \<open>The filter conditions, one per preference key that is present.\<close>

definition conditions_of :: "user_profile \<Rightarrow> string list" where
  "conditions_of preferences =
     (if u_gender preferences \<noteq> None
        then [''(target_gender = ? OR target_gender = 'unisex')''] else [])
     @ (if u_color preferences \<noteq> None then [''color = ?''] else [])
     @ (if u_style preferences \<noteq> None then [''category = ?''] else [])
     @ (if u_budget preferences \<noteq> None then [''price <= ?''] else [])
     @ (if u_age preferences \<noteq> None
        then [''(target_age_min <= ? AND target_age_max >= ?)''] else [])"

text \<open>
  The query text already ends in \<open>WHERE in_stock = TRUE\<close>; with any condition the
  source appends a second \<open>WHERE\<close>, the database rejects the statement and the
  handler returns the empty list. Without conditions the query runs; an exception
  while scoring the rows is caught by the same handler.
\<close>

definition find_products_by_preferences :: "engine \<Rightarrow> user_profile \<Rightarrow> int \<Rightarrow> (int \<times> real) list" where
  "find_products_by_preferences eng preferences n_recommendations =
     (if conditions_of preferences \<noteq> [] then []
      else case conn eng of
        None \<Rightarrow> []
      | Some tbl \<Rightarrow>
          (case map_e (\<lambda>r. bind_e (calculate_preference_score r preferences) (\<lambda>score.
                            bind_e (row_get r ''id'') (\<lambda>v.
                              case v of I i \<Rightarrow> Inr (i, score) | _ \<Rightarrow> Inl TypeError)))
                  (map (select_row find_columns)
                       (sql_limit n_recommendations (in_stock_by_popularity tbl))) of
             Inl e \<Rightarrow> []
           | Inr recommendations \<Rightarrow> sort_key (\<lambda>x. - snd x) recommendations))"

section \<open>Collaborative filter: get_collaborative_recommendations\<close>

definition dot :: "real list \<Rightarrow> real list \<Rightarrow> real" where
  "dot xs ys = sum_list (map2 (*) xs ys)"

text \<open>\<open>svd_model.transform(row)\<close>: the row times the transposed components.\<close>

definition transform :: "real list list \<Rightarrow> real list \<Rightarrow> real list" where
  "transform components r = map (dot r) components"

text \<open>\<open>svd_model.components_.T\<close>: one row of latent factors per item.\<close>

definition item_factors :: "real list list \<Rightarrow> real list list" where
  "item_factors components = transpose components"

text \<open>The columns the user has rated: those with a rating above 0 in the user's row.\<close>

definition user_items_of :: "matrix \<Rightarrow> real list \<Rightarrow> int list" where
  "user_items_of m r = map fst (filter (\<lambda>cr. snd cr > 0) (zip (m_columns m) r))"

definition unrated_items_of :: "py_runtime \<Rightarrow> matrix \<Rightarrow> real list \<Rightarrow> int list" where
  "unrated_items_of rt m r =
     set_order (int_slot rt) (filter (\<lambda>c. c \<notin> set (user_items_of m r)) (m_columns m))"

definition predicted_ratings_of :: "real list list \<Rightarrow> real list \<Rightarrow> real list" where
  "predicted_ratings_of components r =
     map (dot (transform components r)) (item_factors components)"

definition get_collaborative_recommendations ::
    "py_runtime \<Rightarrow> engine \<Rightarrow> int \<Rightarrow> int \<Rightarrow> py_error + (int \<times> real) list" where
  "get_collaborative_recommendations rt eng user_id n_recommendations =
     (case svd_model eng of
        None \<Rightarrow> Inl ValueError
      | Some components \<Rightarrow>
          (case user_item_matrix eng of
             None \<Rightarrow> Inl AttributeError
           | Some m \<Rightarrow>
               (case get_loc (m_index m) user_id of
                  None \<Rightarrow> Inr (get_popular_items eng n_recommendations)
                | Some user_idx \<Rightarrow>
                    bind_e (nth_e (m_values m) user_idx) (\<lambda>r.
                    bind_e (map_e (\<lambda>item_id.
                              case get_loc (m_columns m) item_id of
                                None \<Rightarrow> Inl KeyError
                              | Some item_idx \<Rightarrow>
                                  bind_e (nth_e (predicted_ratings_of components r) item_idx)
                                    (\<lambda>score. Inr (item_id, score)))
                            (unrated_items_of rt m r)) (\<lambda>recommendations.
                    Inr (py_take n_recommendations
                           (sort_key (\<lambda>x. - snd x) recommendations)))))))"

section \<open>Hybrid blender: get_hybrid_recommendations\<close>

record scored =
  sc_product_id :: int
  sc_score :: real
  sc_source :: string

text \<open>Step 3 of the source: keep the first entry of every product id.\<close>

fun unique_recommendations :: "int set \<Rightarrow> scored list \<Rightarrow> scored list" where
  "unique_recommendations seen_products [] = []"
| "unique_recommendations seen_products (r # rs) =
     (if sc_product_id r \<notin> seen_products
      then r # unique_recommendations (insert (sc_product_id r) seen_products) rs
      else unique_recommendations seen_products rs)"

definition with_details :: "product \<Rightarrow> scored \<Rightarrow> recommended" where
  "with_details d r =
     product.extend d
       \<lparr>recommendation_score = sc_score r, recommendation_source = sc_source r\<rparr>"

text \<open>
  Steps 3 and 4 on the entries collected from the two sources: remove duplicates, sort
  by score, cut to \<open>n_recommendations\<close>, and look every product up, dropping those
  without details.
\<close>

definition finish_recommendations :: "engine \<Rightarrow> scored list \<Rightarrow> int \<Rightarrow> recommended list" where
  "finish_recommendations eng recommendations n_recommendations =
     List.map_filter
       (\<lambda>r. map_option (\<lambda>d. with_details d r) (get_product_details eng (sc_product_id r)))
       (py_take n_recommendations
          (sort_key (\<lambda>r. - sc_score r) (unique_recommendations {} recommendations)))"

definition collaborative_entries :: "py_error + (int \<times> real) list \<Rightarrow> scored list" where
  "collaborative_entries cf =
     (case cf of
        Inl e \<Rightarrow> []
      | Inr cf_recs \<Rightarrow>
          map (\<lambda>(product_id, score).
                 \<lparr>sc_product_id = product_id, sc_score = score * 0.6,
                  sc_source = ''collaborative''\<rparr>) cf_recs)"

definition content_entries :: "(int \<times> real) list \<Rightarrow> scored list" where
  "content_entries matching_products =
     map (\<lambda>(product_id, score).
            \<lparr>sc_product_id = product_id, sc_score = score * 0.4, sc_source = ''content''\<rparr>)
         matching_products"

definition get_hybrid_recommendations ::
    "py_runtime \<Rightarrow> engine \<Rightarrow> int \<Rightarrow> user_profile \<Rightarrow> int \<Rightarrow> recommended list" where
  "get_hybrid_recommendations rt eng user_id user_preferences n_recommendations =
     finish_recommendations eng
       (collaborative_entries
          (get_collaborative_recommendations rt eng user_id (n_recommendations div 2))
        @ content_entries
          (find_products_by_preferences eng user_preferences (n_recommendations div 2)))
       n_recommendations"

section \<open>Entry point of the engine and its fallback\<close>





section \<open>Static outfit catalog and recommend_products (utils/recommender.py)\<close>

record catalog_outfit =
  c_outfit_id :: string
  c_name :: string
  c_target_gender :: string
  c_target_age :: string
  c_category :: string
  c_color_scheme :: string
  c_total_price :: int
  c_items :: "outfit_item list"
  c_description :: string
  c_in_stock :: bool


text \<open>An entry of the result of \<open>recommend_products\<close>: an outfit with its score.\<close>

record scored_outfit = outfit +
  o_score :: real

text \<open>\<open>s.startswith(t)\<close> and \<open>t in s\<close> on strings.\<close>

fun starts_with :: "string \<Rightarrow> string \<Rightarrow> bool" where
  "starts_with s [] = True"
| "starts_with [] (d # t) = False"
| "starts_with (c # s) (d # t) = (c = d \<and> starts_with s t)"





text \<open>\<open>round(x, ndigits)\<close> in exact arithmetic: to the nearest, ties to even.\<close>

definition round_half_even :: "real \<Rightarrow> int" where
  "round_half_even x =
     (let f = \<lfloor>x\<rfloor>; d = x - of_int f
      in if d < 1 / 2 then f else if 1 / 2 < d then f + 1 else if even f then f else f + 1)"

definition py_round :: "real \<Rightarrow> nat \<Rightarrow> real" where
  "py_round x ndigits = of_int (round_half_even (x * 10 ^ ndigits)) / 10 ^ ndigits"



definition recommendation_of :: "real \<times> catalog_outfit \<Rightarrow> scored_outfit" where
  "recommendation_of so =
     (case so of (score, outfit) \<Rightarrow>
        \<lparr>o_outfit_id = c_outfit_id outfit,
         o_name = c_name outfit,
         o_description = c_description outfit,
         o_items = c_items outfit,
         o_total_price = real_of_int (c_total_price outfit),
         o_style = c_category outfit,
         o_color_scheme = c_color_scheme outfit,
         o_target_gender = c_target_gender outfit,
         o_target_age = c_target_age outfit,
         o_in_stock = c_in_stock outfit,
         o_score = py_round score 2\<rparr>)"


section \<open>Deterministic pseudo-recommendations: get_recommendations without the heavy dependencies\<close>

record pseudo_rec =
  r_item_id :: string
  r_name :: string
  r_score :: real
  r_style :: string
  r_color :: string

definition styles :: "string list" where
  "styles = [''casual'', ''formal'', ''streetwear'', ''business'', ''sporty'', ''elegant'',
             ''vintage'', ''modern'']"

definition colors :: "string list" where
  "colors = [''black'', ''white'', ''blue'', ''red'', ''green'', ''purple'', ''brown'', ''gray'',
             ''yellow'', ''pink'']"

text \<open>\<open>xs.index(x)\<close> raises ValueError when \<open>x\<close> is not in the list.\<close>

definition py_index :: "'a list \<Rightarrow> 'a \<Rightarrow> py_error + nat" where
  "py_index xs x = (case get_loc xs x of None \<Rightarrow> Inl ValueError | Some i \<Rightarrow> Inr i)"

text \<open>The format \<open>{i:03d}\<close> for \<open>i \<ge> 0\<close>.\<close>

definition pad3 :: "string \<Rightarrow> string" where
  "pad3 s = replicate (3 - length s) CHR ''0'' @ s"

text \<open>The seed \<open>base\<close>, from the profile and the string hash of the process.\<close>

definition base_score :: "py_runtime \<Rightarrow> user_profile \<Rightarrow> real" where
  "base_score rt user_profile =
     (let age = real_of_int (dict_get (u_age user_profile) 28) / 100;
          gender = (if starts_with (lower (dict_get (u_gender user_profile) ''f'')) ''f''
                    then 1 else 0);
          color = real_of_int (\<bar>str_hash rt (dict_get (u_color_pref user_profile) ''black'')\<bar> mod 100) / 100;
          style = real_of_int (\<bar>str_hash rt (dict_get (u_style_pref user_profile) ''streetwear'')\<bar> mod 100) / 100;
          budget = dict_get (u_budget user_profile) 100 / 1000
      in age * 0.4 + gender * 0.1 + color * 0.25 + style * 0.15 + budget * 0.1)"

definition age_styles_of :: "int \<Rightarrow> string list" where
  "age_styles_of user_age =
     (if user_age < 25 then [''casual'', ''sporty'', ''streetwear'', ''modern'']
      else if user_age < 35 then [''casual'', ''business'', ''modern'', ''elegant'']
      else [''formal'', ''business'', ''elegant'', ''vintage''])"

definition budget_styles_of :: "real \<Rightarrow> string list" where
  "budget_styles_of user_budget =
     (if user_budget > 5000 then [''formal'', ''elegant'', ''business'', ''vintage'']
      else if user_budget > 2000 then [''business'', ''modern'', ''casual'', ''elegant'']
      else [''casual'', ''sporty'', ''streetwear''])"

definition preferred_styles_of :: "py_runtime \<Rightarrow> int \<Rightarrow> real \<Rightarrow> string list" where
  "preferred_styles_of rt user_age user_budget =
     set_order (str_slot rt) (age_styles_of user_age @ budget_styles_of user_budget)"

text \<open>The style and the color of the entry at position \<open>i\<close>.\<close>

definition style_color_at ::
    "py_runtime \<Rightarrow> string \<Rightarrow> string \<Rightarrow> int \<Rightarrow> real \<Rightarrow> nat \<Rightarrow> py_error + string \<times> string" where
  "style_color_at rt user_style user_color user_age user_budget i =
     (if i = 0 then Inr (user_style, user_color)
      else if i = 1 then
        bind_e (py_index colors user_color) (\<lambda>j.
          Inr (user_style, colors ! ((j + 1) mod length colors)))
      else if i = 2 then
        bind_e (py_index styles user_style) (\<lambda>j.
          Inr (styles ! ((j + 1) mod length styles), user_color))
      else
        let preferred_styles = preferred_styles_of rt user_age user_budget in
        if preferred_styles = [] then Inl ZeroDivisionError
        else Inr (preferred_styles ! (i mod length preferred_styles),
                  colors ! ((i * 2) mod length colors)))"

definition rec_at :: "py_runtime \<Rightarrow> user_profile \<Rightarrow> nat \<Rightarrow> py_error + pseudo_rec" where
  "rec_at rt user_profile i =
     bind_e (style_color_at rt
               (dict_get (u_style_pref user_profile) ''casual'')
               (dict_get (u_color_pref user_profile) ''black'')
               (dict_get (u_age user_profile) 25)
               (dict_get (u_budget user_profile) 1000) i) (\<lambda>sc.
       Inr \<lparr>r_item_id = ''itm_'' @ pad3 (str_int (int i)),
            r_name = ''Recommended Outfit '' @ str_int (int i + 1),
            r_score = py_round (base_score rt user_profile - real i * 0.02) 4,
            r_style = fst sc,
            r_color = snd sc\<rparr>)"

text \<open>
  The branch of \<open>get_recommendations\<close> taken when a heavy dependency or the model
  file is missing: one entry per \<open>i\<close> in \<open>range(k)\<close>, the first exception ending
  the loop. The creation of the model directory that precedes it (\<open>_ensure_dirs\<close>)
  and the branch that runs the neural network are outside the model.
\<close>

definition get_recommendations :: "py_runtime \<Rightarrow> user_profile \<Rightarrow> int \<Rightarrow> py_error + pseudo_rec list" where
  "get_recommendations rt user_profile k = map_e (rec_at rt user_profile) [0..<nat k]"

section \<open>Predicates and measures used in the statements\<close>

text \<open>
  The invariant of the loop: the slots of the collected items are pairwise different,
  each is one of the four slots, a slot is free exactly when no collected item has it,
  and every collected item is the item of the first product of its slot seen so far.
\<close>

definition assembly_inv :: "recommended list \<Rightarrow> assembly \<Rightarrow> bool" where
  "assembly_inv seen st \<longleftrightarrow>
     distinct (map it_type (outfit_items st)) \<and>
     (\<forall>t. (item_types st t = None) = (t \<notin> it_type ` set (outfit_items st))) \<and>
     (\<forall>it \<in> set (outfit_items st).
        \<exists>p. find (\<lambda>q. item_type_of q = it_type it) seen = Some p \<and> it = item_of p) \<and>
     (\<forall>p \<in> set seen. item_type_of p \<in> it_type ` set (outfit_items st))"

text \<open>
  The shape a trained model and its matrix have: distinct labels, one row of values per
  user and one value per column, and components with one entry per column.
\<close>

definition model_fits :: "matrix \<Rightarrow> real list list \<Rightarrow> bool" where
  "model_fits m components \<longleftrightarrow>
     distinct (m_index m) \<and> distinct (m_columns m) \<and>
     length (m_values m) = length (m_index m) \<and>
     list_all (\<lambda>r. length r = length (m_columns m)) (m_values m) \<and>
     components \<noteq> [] \<and>
     list_all (\<lambda>c. length c = length (m_columns m)) components"


text \<open>
  The predicted score of an item: the dot product of the user's latent factors and the
  item's latent factors.
\<close>

definition predicted_score :: "matrix \<Rightarrow> real list list \<Rightarrow> real list \<Rightarrow> int \<Rightarrow> real" where
  "predicted_score m components r item_id =
     (case get_loc (m_columns m) item_id of
        None \<Rightarrow> 0
      | Some j \<Rightarrow> dot (transform components r) (item_factors components ! j))"

section \<open>Sample data\<close>

text \<open>
  A run time in the manner of CPython: a small set of integers holds \<open>i\<close> at slot
  \<open>i mod 8\<close>, so the set \<open>{1, 8}\<close> is enumerated as 8, 1.
\<close>

definition sample_runtime :: py_runtime where
  "sample_runtime =
     \<lparr>str_hash = (\<lambda>s. int (length s)), str_slot = (\<lambda>s. length s mod 8),
      int_slot = (\<lambda>i. nat (i mod 8))\<rparr>"

definition no_preferences :: user_profile where
  "no_preferences =
     \<lparr>u_user_id = None, u_age = None, u_gender = None, u_color = None, u_style = None,
      u_budget = None, u_color_pref = None, u_style_pref = None\<rparr>"

definition sample_profile :: user_profile where
  "sample_profile =
     \<lparr>u_user_id = Some 1, u_age = Some 30, u_gender = Some ''female'',
      u_color = Some ''black'', u_style = Some ''elegant'', u_budget = Some 15497,
      u_color_pref = Some ''black'', u_style_pref = Some ''elegant''\<rparr>"

definition sneakers :: product where
  "sneakers =
     \<lparr>p_id = 1, p_name = ''Court Sneakers'', p_brand = ''Street Kicks'',
      p_category = ''footwear'', p_subcategory = ''shoes'', p_color = ''white'',
      p_price = 3999, p_image_url = ''sneakers.png'', p_target_gender = ''unisex'',
      p_target_age_min = 18, p_target_age_max = 35, p_popularity_score = 80,
      p_in_stock = True\<rparr>"

definition sandals :: product where
  "sandals =
     \<lparr>p_id = 8, p_name = ''Beach Sandals'', p_brand = ''Comfort Zone'',
      p_category = ''footwear'', p_subcategory = ''sandals'', p_color = ''black'',
      p_price = 1500, p_image_url = ''sandals.png'', p_target_gender = ''female'',
      p_target_age_min = 25, p_target_age_max = 40, p_popularity_score = 80,
      p_in_stock = True\<rparr>"

definition boots :: product where
  "boots =
     \<lparr>p_id = 3, p_name = ''Leather Boots'', p_brand = ''Executive Style'',
      p_category = ''footwear'', p_subcategory = ''shoes'', p_color = ''brown'',
      p_price = 6500, p_image_url = ''boots.png'', p_target_gender = ''male'',
      p_target_age_min = 25, p_target_age_max = 45, p_popularity_score = 60,
      p_in_stock = True\<rparr>"

definition sample_recommendations :: "recommended list" where
  "sample_recommendations =
     [with_details sneakers \<lparr>sc_product_id = 1, sc_score = 48, sc_source = ''collaborative''\<rparr>,
      with_details sandals \<lparr>sc_product_id = 8, sc_score = 48, sc_source = ''collaborative''\<rparr>,
      with_details boots \<lparr>sc_product_id = 3, sc_score = 36, sc_source = ''collaborative''\<rparr>]"

text \<open>
  An engine over three products: user 7 has rated product 3 only, and one latent
  component weighs the three columns alike.
\<close>

definition sample_matrix :: matrix where
  "sample_matrix = \<lparr>m_index = [7], m_columns = [1, 3, 8], m_values = [0, 5, 0] # Nil\<rparr>"

definition sample_engine :: engine where
  "sample_engine =
     \<lparr>conn = Some [sneakers, boots, sandals],
      user_item_matrix = Some sample_matrix,
      svd_model = Some ([1, 1, 1] # Nil)\<rparr>"

text \<open>The same engine before any model was trained (no rated interaction).\<close>

definition untrained_engine :: engine where
  "untrained_engine =
     \<lparr>conn = Some [sneakers, boots, sandals],
      user_item_matrix = Some \<lparr>m_index = [], m_columns = [], m_values = []\<rparr>,
      svd_model = None\<rparr>"

text \<open>A profile whose preferred color is not in the palette of \<open>colors\<close>.\<close>

definition orange_profile :: user_profile where
  "orange_profile = sample_profile\<lparr>u_color_pref := Some ''orange''\<rparr>"

text \<open>A second interpreter process: the same run time with another hash salt.\<close>

definition other_runtime :: py_runtime where
  "other_runtime = sample_runtime\<lparr>str_hash := (\<lambda>s. int (length s) + 1)\<rparr>"

section \<open>Properties of the outfit assembler\<close>

lemma length_py_take: "0 \<le> k \<Longrightarrow> length (py_take k xs) = min (nat k) (length xs)"
  by (simp add: py_take_def)

lemma set_py_take: "set (py_take k xs) \<subseteq> set xs"
  by (auto simp: py_take_def dest: in_set_takeD)

lemma item_type_of_slot:
  "item_type_of p \<in> {''top'', ''bottom'', ''shoes'', ''accessory''}"
  by (simp add: item_type_of_def)

lemma it_type_item_of [simp]: "it_type (item_of p) = item_type_of p"
  by (simp add: item_of_def)

lemma find_append_first:
  "find P (xs @ [x]) = (case find P xs of Some y \<Rightarrow> Some y | None \<Rightarrow> if P x then Some x else None)"
  by (induction xs) auto

lemma assembly_inv_init: "assembly_inv [] assembly_init"
  by (simp add: assembly_inv_def assembly_init_def)

lemma assembly_inv_step:
  assumes "assembly_inv seen st"
  shows "assembly_inv (seen @ [p]) (add_product p st)"
proof (cases "item_types st (item_type_of p) = None")
  case True
  with assms have fresh: "item_type_of p \<notin> it_type ` set (outfit_items st)"
    by (simp add: assembly_inv_def)
  have "\<forall>q \<in> set seen. item_type_of q \<in> it_type ` set (outfit_items st)"
    using assms by (simp add: assembly_inv_def)
  with fresh have "\<forall>q \<in> set seen. item_type_of q \<noteq> item_type_of p"
    by metis
  then have nofind: "find (\<lambda>q. item_type_of q = item_type_of p) seen = None"
    by (simp add: find_None_iff)
  have items: "outfit_items (add_product p st) = outfit_items st @ [item_of p]"
    and types: "item_types (add_product p st) = (item_types st)(item_type_of p := Some p)"
    using True by (simp_all add: add_product_def Let_def)
  have d: "distinct (map it_type (outfit_items (add_product p st)))"
    using assms fresh by (simp add: items assembly_inv_def)
  have f: "\<forall>t. (item_types (add_product p st) t = None)
              = (t \<notin> it_type ` set (outfit_items (add_product p st)))"
    using assms by (auto simp: items types assembly_inv_def)
  have w: "\<forall>it \<in> set (outfit_items (add_product p st)).
        \<exists>q. find (\<lambda>q. item_type_of q = it_type it) (seen @ [p]) = Some q \<and> it = item_of q"
  proof
    fix it assume "it \<in> set (outfit_items (add_product p st))"
    then consider "it \<in> set (outfit_items st)" | "it = item_of p"
      by (auto simp: items)
    then show "\<exists>q. find (\<lambda>q. item_type_of q = it_type it) (seen @ [p]) = Some q \<and> it = item_of q"
    proof cases
      case 1
      with assms obtain q where "find (\<lambda>q. item_type_of q = it_type it) seen = Some q" "it = item_of q"
        by (auto simp: assembly_inv_def)
      then show ?thesis by (simp add: find_append_first)
    next
      case 2
      then show ?thesis using nofind by (simp add: find_append_first)
    qed
  qed
  have c: "\<forall>q \<in> set (seen @ [p]). item_type_of q \<in> it_type ` set (outfit_items (add_product p st))"
    using assms by (auto simp: items assembly_inv_def)
  from d f w c show ?thesis unfolding assembly_inv_def by blast
next
  case False
  then have same: "add_product p st = st"
    by (auto simp: add_product_def Let_def)
  from assms have "(item_types st (item_type_of p) = None)
      = (item_type_of p \<notin> it_type ` set (outfit_items st))"
    unfolding assembly_inv_def by blast
  with False have used: "item_type_of p \<in> it_type ` set (outfit_items st)"
    by metis
  have w: "\<forall>it \<in> set (outfit_items st).
        \<exists>q. find (\<lambda>q. item_type_of q = it_type it) (seen @ [p]) = Some q \<and> it = item_of q"
  proof
    fix it assume "it \<in> set (outfit_items st)"
    with assms obtain q where "find (\<lambda>q. item_type_of q = it_type it) seen = Some q" "it = item_of q"
      by (auto simp: assembly_inv_def)
    then show "\<exists>q. find (\<lambda>q. item_type_of q = it_type it) (seen @ [p]) = Some q \<and> it = item_of q"
      by (simp add: find_append_first)
  qed
  from assms used w show ?thesis
    unfolding same assembly_inv_def by auto
qed

lemma assembly_inv_fold:
  "assembly_inv seen st \<Longrightarrow> assembly_inv (seen @ ps) (fold add_product ps st)"
proof (induction ps arbitrary: seen st)
  case Nil
  then show ?case by simp
next
  case (Cons p ps)
  from Cons.IH [OF assembly_inv_step [OF Cons.prems, of p] ] show ?case by simp
qed

lemma assembly_slots:
  "assembly_inv seen st \<Longrightarrow>
     set (map it_type (outfit_items st)) \<subseteq> {''top'', ''bottom'', ''shoes'', ''accessory''}"
proof
  fix t assume inv: "assembly_inv seen st" and "t \<in> set (map it_type (outfit_items st))"
  then obtain it where "it \<in> set (outfit_items st)" "t = it_type it" by auto
  with inv obtain p where "it = item_of p" by (auto simp: assembly_inv_def)
  with \<open>t = it_type it\<close> show "t \<in> {''top'', ''bottom'', ''shoes'', ''accessory''}"
    using item_type_of_slot [of p] by simp
qed

lemma create_outfit_from_products_sound:
  assumes "create_outfit_from_products products prefs = Some ou"
  shows "distinct (map it_type (o_items ou))"
    and "set (map it_type (o_items ou)) \<subseteq> {''top'', ''bottom'', ''shoes'', ''accessory''}"
    and "2 \<le> length (o_items ou)"
    and "\<forall>it \<in> set (o_items ou).
           \<exists>p. find (\<lambda>q. item_type_of q = it_type it) products = Some p \<and> it = item_of p"
proof -
  let ?st = "fold add_product products assembly_init"
  have inv: "assembly_inv products ?st"
    using assembly_inv_fold [OF assembly_inv_init, of products] by simp
  from assms have len: "2 \<le> length (outfit_items ?st)" and items: "o_items ou = outfit_items ?st"
    by (auto simp: create_outfit_from_products_def Let_def split: if_splits)
  show "distinct (map it_type (o_items ou))"
    using inv by (simp add: items assembly_inv_def)
  show "set (map it_type (o_items ou)) \<subseteq> {''top'', ''bottom'', ''shoes'', ''accessory''}"
    using assembly_slots [OF inv] by (simp add: items)
  show "2 \<le> length (o_items ou)"
    using len by (simp add: items)
  show "\<forall>it \<in> set (o_items ou).
           \<exists>p. find (\<lambda>q. item_type_of q = it_type it) products = Some p \<and> it = item_of p"
    using inv by (simp add: items assembly_inv_def)
qed

lemma create_complete_outfits_origin:
  assumes "ou \<in> set (create_complete_outfits recs prefs)"
  shows "\<exists>style products. (style, products) \<in> set (style_groups recs)
            \<and> create_outfit_from_products products prefs = Some ou"
proof -
  from assms set_py_take have "ou \<in> set (List.map_filter
        (\<lambda>(style, products). create_outfit_from_products products prefs) (style_groups recs))"
    unfolding create_complete_outfits_def by fastforce
  then obtain g where "g \<in> set (style_groups recs)"
      and "create_outfit_from_products (snd g) prefs = Some ou"
    by (auto simp: map_filter_def split: prod.splits)
  then show ?thesis
    by (metis prod.collapse)
qed

text \<open>
  C6. For every list of recommended items and every preference mapping, the outfit
  assembler emits at most 5 outfits; every emitted outfit is built from one group of
  \<open>style_groups\<close>, has at most one item per slot, only the slots top, bottom, shoes
  and accessory, at least 2 items, and each of its items is the item of the first
  product of its slot in the group (the first product met for a slot wins).
\<close>

theorem create_complete_outfits_slots:
  "length (create_complete_outfits recs prefs) \<le> 5 \<and>
   (\<forall>ou \<in> set (create_complete_outfits recs prefs).
      distinct (map it_type (o_items ou)) \<and>
      set (map it_type (o_items ou)) \<subseteq> {''top'', ''bottom'', ''shoes'', ''accessory''} \<and>
      2 \<le> length (o_items ou) \<and>
      (\<exists>style products. (style, products) \<in> set (style_groups recs) \<and>
         create_outfit_from_products products prefs = Some ou \<and>
         (\<forall>it \<in> set (o_items ou).
            \<exists>p. find (\<lambda>q. item_type_of q = it_type it) products = Some p \<and> it = item_of p)))"
proof
  show "length (create_complete_outfits recs prefs) \<le> 5"
    by (simp add: create_complete_outfits_def length_py_take)
next
  show "\<forall>ou \<in> set (create_complete_outfits recs prefs).
      distinct (map it_type (o_items ou)) \<and>
      set (map it_type (o_items ou)) \<subseteq> {''top'', ''bottom'', ''shoes'', ''accessory''} \<and>
      2 \<le> length (o_items ou) \<and>
      (\<exists>style products. (style, products) \<in> set (style_groups recs) \<and>
         create_outfit_from_products products prefs = Some ou \<and>
         (\<forall>it \<in> set (o_items ou).
            \<exists>p. find (\<lambda>q. item_type_of q = it_type it) products = Some p \<and> it = item_of p))"
  proof
    fix ou assume "ou \<in> set (create_complete_outfits recs prefs)"
    from create_complete_outfits_origin [OF this] obtain style products
      where g: "(style, products) \<in> set (style_groups recs)"
        and c: "create_outfit_from_products products prefs = Some ou" by blast
    from create_outfit_from_products_sound [OF c] g c
    show "distinct (map it_type (o_items ou)) \<and>
      set (map it_type (o_items ou)) \<subseteq> {''top'', ''bottom'', ''shoes'', ''accessory''} \<and>
      2 \<le> length (o_items ou) \<and>
      (\<exists>style products. (style, products) \<in> set (style_groups recs) \<and>
         create_outfit_from_products products prefs = Some ou \<and>
         (\<forall>it \<in> set (o_items ou).
            \<exists>p. find (\<lambda>q. item_type_of q = it_type it) products = Some p \<and> it = item_of p))"
      by blast
  qed
qed


theorem create_complete_outfits_slots_witness:
  "length (create_complete_outfits sample_recommendations sample_profile) = 1 \<and>
   distinct (map it_type
     (o_items (hd (create_complete_outfits sample_recommendations sample_profile)))) \<and>
   2 \<le> length (o_items (hd (create_complete_outfits sample_recommendations sample_profile)))"
proof -
  have len: "length (create_complete_outfits sample_recommendations sample_profile) = 1"
    by code_simp
  then have "hd (create_complete_outfits sample_recommendations sample_profile)
      \<in> set (create_complete_outfits sample_recommendations sample_profile)"
    by (cases "create_complete_outfits sample_recommendations sample_profile") auto
  with create_complete_outfits_slots [of sample_recommendations sample_profile] len
  show ?thesis by blast
qed


section \<open>The fallback generators: how many entries they return\<close>


lemma distinct_map_py_take: "distinct (map f xs) \<Longrightarrow> distinct (map f (py_take k xs))"
  by (simp add: py_take_def take_map [symmetric])

lemma distinct_map_sort_key: "distinct (map f (sort_key g xs)) = distinct (map f xs)"
  by (simp add: distinct_map)

lemma map_e_Inr:
  "(\<And>x. x \<in> set xs \<Longrightarrow> f x = Inr (g x)) \<Longrightarrow> map_e f xs = Inr (map g xs)"
  by (induction xs) auto






lemma o_outfit_id_recommendation_of [simp]:
  "o_outfit_id (recommendation_of so) = c_outfit_id (snd so)"
  by (cases so) (simp add: recommendation_of_def)







section \<open>The preference matcher\<close>

lemma bind_e_Inr [simp]: "bind_e (Inr x) f = f x"
  by (simp add: bind_e_def)

lemma bind_e_Inl [simp]: "bind_e (Inl e) f = Inl e"
  by (simp add: bind_e_def)

lemma full_row_lookups:
  "row_get (map_of (product_columns p)) ''target_gender'' = Inr (S (p_target_gender p))"
  "row_get (map_of (product_columns p)) ''color'' = Inr (S (p_color p))"
  "row_get (map_of (product_columns p)) ''category'' = Inr (S (p_category p))"
  "row_get (map_of (product_columns p)) ''price'' = Inr (N (p_price p))"
  "row_get (map_of (product_columns p)) ''target_age_min'' = Inr (I (p_target_age_min p))"
  "row_get (map_of (product_columns p)) ''target_age_max'' = Inr (I (p_target_age_max p))"
  "row_get (map_of (product_columns p)) ''popularity_score'' = Inr (N (p_popularity_score p))"
  by (simp_all add: row_get_def product_columns_def)

lemma find_row_lookups:
  "row_get (select_row find_columns p) ''target_gender'' = Inr (S (p_target_gender p))"
  "row_get (select_row find_columns p) ''color'' = Inr (S (p_color p))"
  "row_get (select_row find_columns p) ''category'' = Inr (S (p_category p))"
  "row_get (select_row find_columns p) ''price'' = Inr (N (p_price p))"
  "row_get (select_row find_columns p) ''target_age_min'' = Inr (I (p_target_age_min p))"
  "row_get (select_row find_columns p) ''target_age_max'' = Inr (I (p_target_age_max p))"
  "row_get (select_row find_columns p) ''popularity_score'' = Inl KeyError"
  "row_get (select_row find_columns p) ''id'' = Inr (I (p_id p))"
  by (simp_all add: row_get_def select_row_def find_columns_def product_columns_def)

lemma score_gender_full:
  "score_gender (map_of (product_columns p)) prefs s = Inr (s + rule_gender p prefs)"
  by (simp add: score_gender_def rule_gender_def full_row_lookups split: option.splits)

lemma score_color_full:
  "score_color (map_of (product_columns p)) prefs s = Inr (s + rule_color p prefs)"
  by (simp add: score_color_def rule_color_def full_row_lookups split: option.splits)

lemma score_style_full:
  "score_style (map_of (product_columns p)) prefs s = Inr (s + rule_style p prefs)"
  by (simp add: score_style_def rule_style_def full_row_lookups split: option.splits)

lemma score_budget_full:
  "score_budget (map_of (product_columns p)) prefs s = Inr (s + rule_budget p prefs)"
  by (simp add: score_budget_def rule_budget_def full_row_lookups split: option.splits)

lemma score_age_full:
  "score_age (map_of (product_columns p)) prefs s = Inr (s + rule_age p prefs)"
  by (auto simp: score_age_def rule_age_def full_row_lookups split: option.splits)

text \<open>
  On a row that holds every column of the product, the score is the sum of the rules as
  the specification words them, and no exception is raised.
\<close>

lemma calculate_preference_score_rules:
  "calculate_preference_score (map_of (product_columns p)) prefs = Inr (preference_rules p prefs)"
  by (simp add: calculate_preference_score_def preference_rules_def score_gender_full
      score_color_full score_style_full score_budget_full score_age_full full_row_lookups)

lemma score_steps_find_row:
  "\<exists>s'. score_gender (select_row find_columns p) prefs s = Inr s'"
  "\<exists>s'. score_color (select_row find_columns p) prefs s = Inr s'"
  "\<exists>s'. score_style (select_row find_columns p) prefs s = Inr s'"
  "\<exists>s'. score_budget (select_row find_columns p) prefs s = Inr s'"
  "\<exists>s'. score_age (select_row find_columns p) prefs s = Inr s'"
  by (simp_all add: score_gender_def score_color_def score_style_def score_budget_def
      score_age_def find_row_lookups split: option.splits)

lemma calculate_preference_score_KeyError:
  "calculate_preference_score (select_row find_columns p) prefs = Inl KeyError"
proof -
  obtain s1 where 1: "score_gender (select_row find_columns p) prefs 0 = Inr s1"
    using score_steps_find_row(1) by blast
  obtain s2 where 2: "score_color (select_row find_columns p) prefs s1 = Inr s2"
    using score_steps_find_row(2) by blast
  obtain s3 where 3: "score_style (select_row find_columns p) prefs s2 = Inr s3"
    using score_steps_find_row(3) by blast
  obtain s4 where 4: "score_budget (select_row find_columns p) prefs s3 = Inr s4"
    using score_steps_find_row(4) by blast
  obtain s5 where 5: "score_age (select_row find_columns p) prefs s4 = Inr s5"
    using score_steps_find_row(5) by blast
  show ?thesis
    by (simp add: calculate_preference_score_def 1 2 3 4 5 find_row_lookups)
qed



text \<open>
  C3 on the rows the engine builds. \<open>find_products_by_preferences\<close>, the only
  caller of \<open>calculate_preference_score\<close>, selects the columns \<open>find_columns\<close>,
  which leave out \<open>popularity_score\<close> (the sibling queries of \<open>get_popular_items\<close>
  and \<open>load_product_features\<close> select it). On every such row, whatever the product
  and the preferences, every rule is applied and the popularity boost then raises
  KeyError: no score is returned.
\<close>

theorem calculate_preference_score_find_row:
  "calculate_preference_score (select_row find_columns p) prefs = Inl KeyError"
  by (rule calculate_preference_score_KeyError)



section \<open>The collaborative filter: cold start\<close>

lemma sorted_desc_sort_key:
  fixes f :: "'a \<Rightarrow> real"
  shows "sorted_wrt (\<lambda>a b. f b \<le> f a) (sort_key (\<lambda>x. - f x) xs)"
  using sorted_sort_key [of "\<lambda>x. - f x" xs] by (simp add: sorted_map)

lemma sorted_wrt_py_take: "sorted_wrt R xs \<Longrightarrow> sorted_wrt R (py_take k xs)"
  by (simp add: py_take_def sorted_wrt_take)

lemma sorted_wrt_sql_limit: "sorted_wrt R xs \<Longrightarrow> sorted_wrt R (sql_limit k xs)"
  by (simp add: sql_limit_def sorted_wrt_take)

lemma take_drop_ordered:
  assumes "sorted_wrt R xs" and "a \<in> set (take n xs)" and "b \<in> set (drop n xs)"
  shows "R a b"
proof -
  from assms(1) have "sorted_wrt R (take n xs @ drop n xs)" by simp
  with assms(2,3) show ?thesis unfolding sorted_wrt_append by blast
qed

lemma filter_take_prefix: "\<exists>k. filter P (take n xs) = take k (filter P xs)"
proof (induction xs arbitrary: n)
  case Nil
  then show ?case by simp
next
  case (Cons x xs)
  show ?case
  proof (cases n)
    case 0
    then show ?thesis by (intro exI [of _ 0]) simp
  next
    case (Suc n')
    from Cons.IH [of n'] obtain k where k: "filter P (take n' xs) = take k (filter P xs)" ..
    show ?thesis
    proof (cases "P x")
      case True
      with k Suc show ?thesis by (intro exI [of _ "Suc k"]) simp
    next
      case False
      with k Suc show ?thesis by (intro exI [of _ k]) simp
    qed
  qed
qed

lemma get_loc_None_iff: "get_loc xs x = None \<longleftrightarrow> x \<notin> set xs"
  by (induction xs) auto

lemma get_loc_Some: "get_loc xs x = Some i \<Longrightarrow> i < length xs \<and> xs ! i = x"
  by (induction xs arbitrary: i) (auto split: if_splits)

lemma get_loc_in: "x \<in> set xs \<Longrightarrow> \<exists>i. get_loc xs x = Some i"
  using get_loc_None_iff [of xs x] by (cases "get_loc xs x") auto

lemma length_in_stock_limit:
  "0 \<le> n \<Longrightarrow> length (sql_limit n (in_stock_by_popularity tbl))
     = min (nat n) (length (filter p_in_stock tbl))"
  by (simp add: sql_limit_def in_stock_by_popularity_def)

lemma set_in_stock_by_popularity:
  "set (in_stock_by_popularity tbl) = {p \<in> set tbl. p_in_stock p}"
  by (auto simp: in_stock_by_popularity_def)

lemma sorted_in_stock_by_popularity:
  "sorted_wrt (\<lambda>a b. p_popularity_score b \<le> p_popularity_score a) (in_stock_by_popularity tbl)"
  unfolding in_stock_by_popularity_def by (rule sorted_desc_sort_key)

lemma get_popular_items_None: "conn eng = None \<Longrightarrow> get_popular_items eng n = []"
  by (simp add: get_popular_items_def)

lemma get_popular_items_Some:
  assumes "conn eng = Some tbl" and "0 \<le> n"
  shows "length (get_popular_items eng n) = min (nat n) (length (filter p_in_stock tbl))"
    and "sorted_wrt (\<lambda>a b. snd b \<le> snd a) (get_popular_items eng n)"
    and "\<forall>x \<in> set (get_popular_items eng n).
           \<exists>p \<in> set tbl. p_in_stock p \<and> x = (p_id p, p_popularity_score p)"
    and "\<forall>p \<in> set tbl. p_in_stock p \<longrightarrow>
           (p_id p, p_popularity_score p) \<in> set (get_popular_items eng n) \<or>
           (\<forall>x \<in> set (get_popular_items eng n). p_popularity_score p \<le> snd x)"
proof -
  let ?all = "in_stock_by_popularity tbl"
  have gp: "get_popular_items eng n
      = map (\<lambda>p. (p_id p, p_popularity_score p)) (take (nat n) ?all)"
    using assms by (simp add: get_popular_items_def sql_limit_def)
  show "length (get_popular_items eng n) = min (nat n) (length (filter p_in_stock tbl))"
    by (simp add: gp in_stock_by_popularity_def)
  have "sorted_wrt (\<lambda>a b. p_popularity_score b \<le> p_popularity_score a) (take (nat n) ?all)"
    by (intro sorted_wrt_take sorted_in_stock_by_popularity)
  then show "sorted_wrt (\<lambda>a b. snd b \<le> snd a) (get_popular_items eng n)"
    by (simp add: gp sorted_wrt_map)
  show "\<forall>x \<in> set (get_popular_items eng n).
           \<exists>p \<in> set tbl. p_in_stock p \<and> x = (p_id p, p_popularity_score p)"
  proof
    fix x assume "x \<in> set (get_popular_items eng n)"
    then obtain p where "p \<in> set (take (nat n) ?all)" "x = (p_id p, p_popularity_score p)"
      by (auto simp: gp)
    moreover from this have "p \<in> set ?all" by (blast dest: in_set_takeD)
    ultimately show "\<exists>p \<in> set tbl. p_in_stock p \<and> x = (p_id p, p_popularity_score p)"
      by (auto simp: set_in_stock_by_popularity)
  qed
  show "\<forall>p \<in> set tbl. p_in_stock p \<longrightarrow>
           (p_id p, p_popularity_score p) \<in> set (get_popular_items eng n) \<or>
           (\<forall>x \<in> set (get_popular_items eng n). p_popularity_score p \<le> snd x)"
  proof (intro ballI impI)
    fix p assume "p \<in> set tbl" "p_in_stock p"
    then have "p \<in> set ?all"
      by (simp add: set_in_stock_by_popularity)
    then consider "p \<in> set (take (nat n) ?all)" | "p \<in> set (drop (nat n) ?all)"
      by (metis append_take_drop_id set_append Un_iff)
    then show "(p_id p, p_popularity_score p) \<in> set (get_popular_items eng n) \<or>
           (\<forall>x \<in> set (get_popular_items eng n). p_popularity_score p \<le> snd x)"
    proof cases
      case 1
      then show ?thesis by (auto simp: gp)
    next
      case 2
      have "\<forall>x \<in> set (get_popular_items eng n). p_popularity_score p \<le> snd x"
      proof
        fix x assume "x \<in> set (get_popular_items eng n)"
        then obtain q where q: "q \<in> set (take (nat n) ?all)" "x = (p_id q, p_popularity_score q)"
          by (auto simp: gp)
        from take_drop_ordered [OF sorted_in_stock_by_popularity q(1) 2] q(2)
        show "p_popularity_score p \<le> snd x" by simp
      qed
      then show ?thesis ..
    qed
  qed
qed

text \<open>
  C4, with the precondition the code has. Once the collaborative model has been trained,
  for every user absent from the user-item matrix and every \<open>n\<close> the collaborative
  filter raises nothing and returns the list of \<open>get_popular_items\<close>: empty when the
  query fails, and otherwise, for \<open>n \<ge> 0\<close>, the \<open>min n\<close> (number of in-stock
  products) most popular in-stock products with their popularity scores, in descending
  order of popularity; a product left out is no more popular than any product returned.
\<close>

theorem cold_start_popularity:
  assumes "svd_model eng = Some components"
    and "user_item_matrix eng = Some m"
    and "user_id \<notin> set (m_index m)"
  shows "get_collaborative_recommendations rt eng user_id n = Inr (get_popular_items eng n) \<and>
     (conn eng = None \<longrightarrow> get_popular_items eng n = []) \<and>
     (\<forall>tbl. conn eng = Some tbl \<and> 0 \<le> n \<longrightarrow>
        length (get_popular_items eng n) = min (nat n) (length (filter p_in_stock tbl)) \<and>
        sorted_wrt (\<lambda>a b. snd b \<le> snd a) (get_popular_items eng n) \<and>
        (\<forall>x \<in> set (get_popular_items eng n).
           \<exists>p \<in> set tbl. p_in_stock p \<and> x = (p_id p, p_popularity_score p)) \<and>
        (\<forall>p \<in> set tbl. p_in_stock p \<longrightarrow>
           (p_id p, p_popularity_score p) \<in> set (get_popular_items eng n) \<or>
           (\<forall>x \<in> set (get_popular_items eng n). p_popularity_score p \<le> snd x)))"
proof -
  from assms(3) have "get_loc (m_index m) user_id = None"
    by (simp add: get_loc_None_iff)
  with assms(1,2)
  have "get_collaborative_recommendations rt eng user_id n = Inr (get_popular_items eng n)"
    by (simp add: get_collaborative_recommendations_def)
  with get_popular_items_None [of eng n] get_popular_items_Some [of eng _ n]
  show ?thesis by blast
qed

theorem cold_start_popularity_witness:
  "svd_model sample_engine = Some ([1, 1, 1] # Nil) \<and>
   user_item_matrix sample_engine = Some sample_matrix \<and>
   99 \<notin> set (m_index sample_matrix) \<and>
   get_collaborative_recommendations sample_runtime sample_engine 99 2
     = Inr (get_popular_items sample_engine 2) \<and>
   get_popular_items sample_engine 2 = [(1, 80), (8, 80)]"
proof -
  have a: "svd_model sample_engine = Some ([1, 1, 1] # Nil)"
    and b: "user_item_matrix sample_engine = Some sample_matrix"
    and c: "99 \<notin> set (m_index sample_matrix)"
    by (simp_all add: sample_engine_def sample_matrix_def)
  have "get_popular_items sample_engine 2 = [(1, 80), (8, 80)]"
    by code_simp
  with cold_start_popularity [OF a b c, of sample_runtime 2] a b c show ?thesis
    by blast
qed

text \<open>
  C4 as stated fails: before a model is trained (\<open>train_models\<close> skips the training
  when there is no rated interaction) every user is absent from the matrix, and the
  collaborative filter raises ValueError instead of returning the popular items.
\<close>

theorem cold_start_untrained_counterexample:
  "user_item_matrix untrained_engine = Some \<lparr>m_index = [], m_columns = [], m_values = []\<rparr> \<and>
   get_collaborative_recommendations sample_runtime untrained_engine 99 2 = Inl ValueError"
  by (simp add: get_collaborative_recommendations_def untrained_engine_def)


section \<open>The collaborative filter: a known user\<close>

lemma length_transpose_rect:
  "list_all (\<lambda>c. length c = L) xss \<Longrightarrow> xss \<noteq> [] \<Longrightarrow> length (transpose xss) = L"
proof -
  assume a: "list_all (\<lambda>c. length c = L) xss" and b: "xss \<noteq> []"
  have "list_all (\<lambda>c. length c = L) yss \<Longrightarrow> yss \<noteq> [] \<Longrightarrow>
        foldr (\<lambda>xs. max (length xs)) yss 0 = L" for yss :: "'a list list"
  proof (induction yss)
    case Nil
    then show ?case by simp
  next
    case (Cons ys yss)
    then show ?case by (cases yss) auto
  qed
  with a b show ?thesis by (simp add: length_transpose)
qed

lemma length_predicted_ratings:
  "model_fits m components \<Longrightarrow> length (predicted_ratings_of components r) = length (m_columns m)"
  by (simp add: predicted_ratings_of_def item_factors_def model_fits_def length_transpose_rect)

lemma nth_predicted_ratings:
  assumes "model_fits m components" and "get_loc (m_columns m) c = Some j"
  shows "nth_e (predicted_ratings_of components r) j = Inr (predicted_score m components r c)"
proof -
  from assms(2) have j: "j < length (m_columns m)" by (simp add: get_loc_Some)
  with length_predicted_ratings [OF assms(1), of r]
  have "j < length (predicted_ratings_of components r)" by simp
  moreover from this have "predicted_ratings_of components r ! j
      = dot (transform components r) (item_factors components ! j)"
    by (simp add: predicted_ratings_of_def)
  ultimately show ?thesis
    using assms(2) by (simp add: nth_e_def predicted_score_def)
qed

lemma set_set_order [simp]: "set (set_order slot xs) = set xs"
  by (simp add: set_order_def)

lemma distinct_set_order [simp]: "distinct (set_order slot xs)"
  by (simp add: set_order_def)

lemma set_unrated_items:
  "set (unrated_items_of rt m r) = set (m_columns m) - set (user_items_of m r)"
  by (auto simp: unrated_items_of_def)

lemma user_items_rated:
  assumes "distinct (m_columns m)" and "length r = length (m_columns m)"
    and "j < length (m_columns m)"
  shows "m_columns m ! j \<in> set (user_items_of m r) \<longleftrightarrow> 0 < r ! j"
proof
  assume "m_columns m ! j \<in> set (user_items_of m r)"
  then obtain x where "(m_columns m ! j, x) \<in> set (zip (m_columns m) r)" and x: "0 < x"
    by (auto simp: user_items_of_def)
  then obtain i where i: "i < length (m_columns m)" "m_columns m ! i = m_columns m ! j" "r ! i = x"
    by (auto simp: in_set_zip)
  with assms(1,3) have "i = j" by (simp add: nth_eq_iff_index_eq)
  with i x show "0 < r ! j" by simp
next
  assume "0 < r ! j"
  moreover have "(m_columns m ! j, r ! j) \<in> set (zip (m_columns m) r)"
    using assms(2,3) by (auto simp: in_set_zip)
  ultimately show "m_columns m ! j \<in> set (user_items_of m r)"
    by (force simp: user_items_of_def)
qed

lemma model_fits_row:
  assumes "model_fits m components" and "get_loc (m_index m) user_id = Some u"
  shows "nth_e (m_values m) u = Inr (m_values m ! u)"
    and "length (m_values m ! u) = length (m_columns m)"
proof -
  from assms have u: "u < length (m_values m)"
    by (auto simp: model_fits_def dest: get_loc_Some)
  then show "nth_e (m_values m) u = Inr (m_values m ! u)" by (simp add: nth_e_def)
  from assms(1) u show "length (m_values m ! u) = length (m_columns m)"
    by (auto simp: model_fits_def list_all_length)
qed

lemma item_score:
  assumes "model_fits m components" and j: "get_loc (m_columns m) c = Some j"
  shows "(case get_loc (m_columns m) c of
              None \<Rightarrow> Inl KeyError
            | Some item_idx \<Rightarrow>
                bind_e (nth_e (predicted_ratings_of components r) item_idx)
                  (\<lambda>score. Inr (c, score)))
          = Inr (c, predicted_score m components r c)"
  apply (simp only: j option.case)
  apply (simp only: nth_predicted_ratings [OF assms(1) j])
  apply (simp only: bind_e_def sum.case)
  done

lemma items_scores:
  assumes "model_fits m components"
  shows "map_e (\<lambda>item_id.
            case get_loc (m_columns m) item_id of
              None \<Rightarrow> Inl KeyError
            | Some item_idx \<Rightarrow>
                bind_e (nth_e (predicted_ratings_of components r) item_idx)
                  (\<lambda>score. Inr (item_id, score)))
          (unrated_items_of rt m r)
      = Inr (map (\<lambda>c. (c, predicted_score m components r c)) (unrated_items_of rt m r))"
proof (rule map_e_Inr)
  fix c assume "c \<in> set (unrated_items_of rt m r)"
  then have "c \<in> set (m_columns m)" by (simp add: set_unrated_items)
  from get_loc_in [OF this] obtain j where j: "get_loc (m_columns m) c = Some j" ..
  show "(case get_loc (m_columns m) c of
              None \<Rightarrow> Inl KeyError
            | Some item_idx \<Rightarrow>
                bind_e (nth_e (predicted_ratings_of components r) item_idx)
                  (\<lambda>score. Inr (c, score)))
          = Inr (c, predicted_score m components r c)"
    by (rule item_score [OF assms j])
qed


lemma known_user_result:
  assumes "svd_model eng = Some components" and "user_item_matrix eng = Some m"
    and "model_fits m components" and "get_loc (m_index m) user_id = Some u"
  shows "get_collaborative_recommendations rt eng user_id n =
     Inr (py_take n (sort_key (\<lambda>x. - snd x)
            (map (\<lambda>c. (c, predicted_score m components (m_values m ! u) c))
                 (unrated_items_of rt m (m_values m ! u)))))"
  unfolding get_collaborative_recommendations_def
  apply (simp only: assms(1,2,4) option.case)
  apply (simp only: model_fits_row(1) [OF assms(3,4)] bind_e_Inr)
  apply (simp only: items_scores [OF assms(3)] bind_e_Inr)
  done

lemma ties_keep_order:
  fixes g :: "'a \<Rightarrow> real"
  shows "\<exists>k. map fst (filter (\<lambda>x. snd x = s)
                 (take n (sort_key (\<lambda>x. - snd x) (map (\<lambda>c. (c, g c)) cs))))
           = take k (filter (\<lambda>c. g c = s) cs)"
proof -
  let ?xs = "map (\<lambda>c. (c, g c)) cs"
  from filter_take_prefix [of "\<lambda>x. snd x = s" n "sort_key (\<lambda>x. - snd x) ?xs"]
  obtain k where "filter (\<lambda>x. snd x = s) (take n (sort_key (\<lambda>x. - snd x) ?xs))
      = take k (filter (\<lambda>x. snd x = s) (sort_key (\<lambda>x. - snd x) ?xs))" ..
  moreover have "filter (\<lambda>x. snd x = s) (sort_key (\<lambda>x. - snd x) ?xs)
      = filter (\<lambda>x. snd x = s) ?xs"
    using sort_key_stable [of "\<lambda>x. - snd x" "- s" ?xs] by simp
  moreover have "map fst (filter (\<lambda>x. snd x = s) ?xs) = filter (\<lambda>c. g c = s) cs"
    by (induction cs) auto
  ultimately show ?thesis
    by (metis take_map)
qed

text \<open>
  C8, with the order of ties the code has. For a user present in the matrix, a trained
  model that fits the matrix and \<open>n \<ge> 0\<close>, the collaborative filter raises nothing
  and returns at most \<open>n\<close> entries (all unrated items when there are fewer), sorted
  by predicted score in descending order, with pairwise different items; every entry is
  a column of the matrix whose rating by the user is not above 0, with the dot product
  of the user's and the item's latent factors as its score; an unrated item left out
  scores no higher than any entry; and entries of equal score follow the order in which
  Python enumerates the set of unrated items (\<open>unrated_items_of\<close>), which need not be
  the order of the columns.
\<close>

theorem known_user_recommendations:
  assumes trained: "svd_model eng = Some components"
    and mat: "user_item_matrix eng = Some m"
    and fits: "model_fits m components"
    and loc: "get_loc (m_index m) user_id = Some u"
    and n: "0 \<le> n"
  shows "\<exists>recs. get_collaborative_recommendations rt eng user_id n = Inr recs \<and>
     length recs = min (nat n) (length (unrated_items_of rt m (m_values m ! u))) \<and>
     sorted_wrt (\<lambda>a b. snd b \<le> snd a) recs \<and>
     distinct (map fst recs) \<and>
     (\<forall>x \<in> set recs. \<exists>j. get_loc (m_columns m) (fst x) = Some j \<and>
         \<not> 0 < m_values m ! u ! j \<and>
         snd x = dot (transform components (m_values m ! u)) (item_factors components ! j)) \<and>
     (\<forall>j < length (m_columns m). \<not> 0 < m_values m ! u ! j \<longrightarrow>
         m_columns m ! j \<in> fst ` set recs \<or>
         (\<forall>x \<in> set recs.
            predicted_score m components (m_values m ! u) (m_columns m ! j) \<le> snd x)) \<and>
     (\<forall>s. \<exists>k. map fst (filter (\<lambda>x. snd x = s) recs)
            = take k (filter (\<lambda>c. predicted_score m components (m_values m ! u) c = s)
                        (unrated_items_of rt m (m_values m ! u))))"
proof -
  let ?r = "m_values m ! u"
  let ?g = "\<lambda>c. (c, predicted_score m components ?r c)"
  let ?un = "unrated_items_of rt m ?r"
  let ?full = "sort_key (\<lambda>x. - snd x) (map ?g ?un)"
  let ?recs = "take (nat n) ?full"
  have cols: "distinct (m_columns m)" and lr: "length ?r = length (m_columns m)"
    using fits model_fits_row(2) [OF fits loc] by (simp_all add: model_fits_def)
  have res: "get_collaborative_recommendations rt eng user_id n = Inr ?recs"
    using known_user_result [OF trained mat fits loc, of rt n] n by (simp add: py_take_def)
  have len: "length ?recs = min (nat n) (length ?un)"
    by simp
  have srt: "sorted_wrt (\<lambda>a b. snd b \<le> snd a) ?recs"
    by (intro sorted_wrt_take sorted_desc_sort_key)
  have "distinct (map fst (map ?g ?un))"
    by (simp add: comp_def unrated_items_of_def)
  then have "distinct (map fst ?full)"
    by (simp only: distinct_map_sort_key)
  then have dst: "distinct (map fst ?recs)"
    by (simp add: take_map [symmetric])
  have sub: "set ?recs \<subseteq> ?g ` set ?un"
    using set_take_subset [of "nat n" ?full] by simp
  have each: "\<forall>x \<in> set ?recs. \<exists>j. get_loc (m_columns m) (fst x) = Some j \<and>
         \<not> 0 < ?r ! j \<and>
         snd x = dot (transform components ?r) (item_factors components ! j)"
  proof
    fix x assume "x \<in> set ?recs"
    with sub obtain c where c: "c \<in> set ?un" and x: "x = ?g c" by blast
    from c have cin: "c \<in> set (m_columns m)" and cun: "c \<notin> set (user_items_of m ?r)"
      by (simp_all add: set_unrated_items)
    from get_loc_in [OF cin] obtain j where j: "get_loc (m_columns m) c = Some j" ..
    from get_loc_Some [OF j] have jl: "j < length (m_columns m)" and jc: "m_columns m ! j = c"
      by simp_all
    from user_items_rated [OF cols lr jl] cun jc have "\<not> 0 < ?r ! j" by simp
    moreover have "snd x = dot (transform components ?r) (item_factors components ! j)"
      by (simp add: x predicted_score_def j)
    ultimately show "\<exists>j. get_loc (m_columns m) (fst x) = Some j \<and>
         \<not> 0 < ?r ! j \<and>
         snd x = dot (transform components ?r) (item_factors components ! j)"
      using j x by auto
  qed
  have top: "\<forall>j < length (m_columns m). \<not> 0 < ?r ! j \<longrightarrow>
         m_columns m ! j \<in> fst ` set ?recs \<or>
         (\<forall>x \<in> set ?recs. predicted_score m components ?r (m_columns m ! j) \<le> snd x)"
  proof (intro allI impI)
    fix j assume jl: "j < length (m_columns m)" and nr: "\<not> 0 < ?r ! j"
    let ?c = "m_columns m ! j"
    from user_items_rated [OF cols lr jl] nr jl have "?c \<in> set ?un"
      by (simp add: set_unrated_items)
    then have "?g ?c \<in> set ?full" by simp
    then consider "?g ?c \<in> set (take (nat n) ?full)" | "?g ?c \<in> set (drop (nat n) ?full)"
      by (metis append_take_drop_id set_append Un_iff)
    then show "?c \<in> fst ` set ?recs \<or>
         (\<forall>x \<in> set ?recs. predicted_score m components ?r ?c \<le> snd x)"
    proof cases
      case 1
      then show ?thesis by force
    next
      case 2
      have "\<forall>x \<in> set ?recs. predicted_score m components ?r ?c \<le> snd x"
      proof
        fix x assume "x \<in> set ?recs"
        from take_drop_ordered [OF sorted_desc_sort_key this 2]
        show "predicted_score m components ?r ?c \<le> snd x" by simp
      qed
      then show ?thesis ..
    qed
  qed
  have ties: "\<forall>s. \<exists>k. map fst (filter (\<lambda>x. snd x = s) ?recs)
            = take k (filter (\<lambda>c. predicted_score m components ?r c = s) ?un)"
    using ties_keep_order [of _ "nat n" "predicted_score m components ?r" ?un] by blast
  from res len srt dst each top ties show ?thesis by blast
qed

theorem known_user_recommendations_witness:
  "svd_model sample_engine = Some ([1, 1, 1] # Nil) \<and>
   user_item_matrix sample_engine = Some sample_matrix \<and>
   model_fits sample_matrix ([1, 1, 1] # Nil) \<and>
   get_loc (m_index sample_matrix) 7 = Some 0 \<and>
   (\<exists>recs. get_collaborative_recommendations sample_runtime sample_engine 7 1 = Inr recs \<and>
      length recs = 1 \<and> distinct (map fst recs))"
proof -
  have a: "svd_model sample_engine = Some ([1, 1, 1] # Nil)"
    and b: "user_item_matrix sample_engine = Some sample_matrix"
    and c: "model_fits sample_matrix ([1, 1, 1] # Nil)"
    and d: "get_loc (m_index sample_matrix) 7 = Some 0"
    by (simp_all add: sample_engine_def sample_matrix_def model_fits_def)
  have e: "(0::int) \<le> 1" by simp
  have "length (unrated_items_of sample_runtime sample_matrix (m_values sample_matrix ! 0)) = 2"
    by code_simp
  with known_user_recommendations [OF a b c d e, of sample_runtime] a b c d
  show ?thesis by auto
qed

text \<open>
  C8 as stated fails on the order of ties: the columns are 1, 3, 8, the user has rated
  3, the items 1 and 8 both score 5, and the set \<open>{1, 8}\<close> is enumerated as 8, 1, so
  that 8 comes before 1 in the result.
\<close>

theorem known_user_ties_counterexample:
  "m_columns sample_matrix = [1, 3, 8] \<and>
   get_collaborative_recommendations sample_runtime sample_engine 7 2 = Inr [(8, 5), (1, 5)]"
proof -
  have "get_collaborative_recommendations sample_runtime sample_engine 7 2
      = Inr [(8, 5), (1, 5)]"
    by code_simp
  then show ?thesis by (simp add: sample_matrix_def)
qed


section \<open>The hybrid blender\<close>

lemma unique_recommendations_fresh:
  "sc_product_id ` set (unique_recommendations seen rs) \<inter> seen = {}"
  by (induction rs arbitrary: seen) auto

lemma unique_recommendations_distinct:
  "distinct (map sc_product_id (unique_recommendations seen rs))"
proof (induction rs arbitrary: seen)
  case Nil
  then show ?case by simp
next
  case (Cons r rs)
  show ?case
  proof (cases "sc_product_id r \<in> seen")
    case True
    then show ?thesis using Cons.IH by simp
  next
    case False
    have "sc_product_id r \<notin> sc_product_id ` set (unique_recommendations (insert (sc_product_id r) seen) rs)"
      using unique_recommendations_fresh [of "insert (sc_product_id r) seen" rs] by blast
    with False Cons.IH show ?thesis by simp
  qed
qed

lemma unique_recommendations_first:
  "r \<in> set (unique_recommendations seen rs) \<Longrightarrow>
     find (\<lambda>x. sc_product_id x = sc_product_id r) rs = Some r"
proof (induction rs arbitrary: seen)
  case Nil
  then show ?case by simp
next
  case (Cons a rs)
  show ?case
  proof (cases "sc_product_id a \<in> seen")
    case True
    with Cons.prems have in_rest: "r \<in> set (unique_recommendations seen rs)" by simp
    with unique_recommendations_fresh [of seen rs] have "sc_product_id r \<notin> seen" by blast
    with True have "sc_product_id a \<noteq> sc_product_id r" by metis
    with Cons.IH [OF in_rest] show ?thesis by simp
  next
    case False
    with Cons.prems consider "r = a"
      | "r \<in> set (unique_recommendations (insert (sc_product_id a) seen) rs)" by auto
    then show ?thesis
    proof cases
      case 1
      then show ?thesis by simp
    next
      case 2
      with unique_recommendations_fresh [of "insert (sc_product_id a) seen" rs]
      have "sc_product_id a \<noteq> sc_product_id r" by blast
      with Cons.IH [OF 2] show ?thesis by simp
    qed
  qed
qed

lemma get_product_details_id:
  "get_product_details eng i = Some d \<Longrightarrow> p_id d = i \<and> p_in_stock d"
proof -
  assume a: "get_product_details eng i = Some d"
  then obtain tbl ds where "filter (\<lambda>p. p_id p = i \<and> p_in_stock p) tbl = d # ds"
    by (auto simp: get_product_details_def split: option.splits list.splits)
  then have "d \<in> set (filter (\<lambda>p. p_id p = i \<and> p_in_stock p) tbl)" by simp
  then show ?thesis by simp
qed

lemma with_details_fields [simp]:
  "p_id (with_details d r) = p_id d"
  "recommendation_score (with_details d r) = sc_score r"
  "recommendation_source (with_details d r) = sc_source r"
  by (simp_all add: with_details_def product.defs)

lemma length_map_filter_le: "length (List.map_filter f xs) \<le> length xs"
  by (simp add: map_filter_def)

text \<open>Every entry of the result comes from the first entry of its product id.\<close>

lemma finish_recommendations_entry:
  assumes "out \<in> set (finish_recommendations eng recs n)"
  shows "\<exists>r. find (\<lambda>x. sc_product_id x = p_id out) recs = Some r \<and>
           recommendation_score out = sc_score r \<and> recommendation_source out = sc_source r"
proof -
  from assms obtain r d
    where r: "r \<in> set (py_take n (sort_key (\<lambda>r. - sc_score r) (unique_recommendations {} recs)))"
      and d: "get_product_details eng (sc_product_id r) = Some d"
      and out: "out = with_details d r"
    by (auto simp: finish_recommendations_def map_filter_def)
  from r set_py_take have "r \<in> set (sort_key (\<lambda>r. - sc_score r) (unique_recommendations {} recs))"
    by fastforce
  then have "r \<in> set (unique_recommendations {} recs)" by simp
  from unique_recommendations_first [OF this] get_product_details_id [OF d] out
  show ?thesis by simp
qed

lemma finish_recommendations_distinct:
  "distinct (map p_id (finish_recommendations eng recs n))"
proof -
  let ?cut = "py_take n (sort_key (\<lambda>r. - sc_score r) (unique_recommendations {} recs))"
  let ?rs = "filter (\<lambda>r. get_product_details eng (sc_product_id r) \<noteq> None) ?cut"
  have "map p_id (finish_recommendations eng recs n) = map sc_product_id ?rs"
    unfolding finish_recommendations_def map_filter_def
    by (auto simp: comp_def dest: get_product_details_id intro!: map_cong filter_cong)
  moreover have "distinct (map sc_product_id ?cut)"
    by (intro distinct_map_py_take)
       (simp only: distinct_map_sort_key unique_recommendations_distinct)
  then have "distinct (map sc_product_id ?rs)"
    by (rule distinct_map_filter)
  ultimately show ?thesis by simp
qed

lemma finish_recommendations_length:
  "0 \<le> n \<Longrightarrow> length (finish_recommendations eng recs n) \<le> nat n"
proof -
  assume "0 \<le> n"
  then have "length (py_take n (sort_key (\<lambda>r. - sc_score r) (unique_recommendations {} recs)))
      \<le> nat n"
    by (simp add: length_py_take)
  with length_map_filter_le show ?thesis
    unfolding finish_recommendations_def by (rule order_trans)
qed

lemma find_append:
  "find P (xs @ ys) = (case find P xs of Some x \<Rightarrow> Some x | None \<Rightarrow> find P ys)"
  by (induction xs) auto

lemma find_collaborative_entries:
  "find (\<lambda>x. sc_product_id x = i) (collaborative_entries (Inr cf_recs))
     = map_option (\<lambda>x. \<lparr>sc_product_id = fst x, sc_score = snd x * 0.6,
                        sc_source = ''collaborative''\<rparr>)
         (find (\<lambda>x. fst x = i) cf_recs)"
  by (induction cf_recs) (auto simp: collaborative_entries_def)

lemma find_content_entries:
  "find (\<lambda>x. sc_product_id x = i) (content_entries matching) = Some r
     \<Longrightarrow> sc_source r = ''content''"
  by (induction matching) (auto simp: content_entries_def split: if_splits)

lemma find_fst: "find (\<lambda>x. fst x = i) xs = Some x \<Longrightarrow> fst x = i"
  by (induction xs) (auto split: if_splits)

lemma find_fst_None: "find (\<lambda>x. fst x = i) xs = None \<longleftrightarrow> i \<notin> fst ` set xs"
  by (induction xs) auto

text \<open>
  C5. For every count \<open>n \<ge> 0\<close>, user and preference mapping, the output of the
  hybrid blender has at most \<open>n\<close> entries and no two entries with the same product
  id. Whatever the two sources produce, the blending of their entries keeps, for every
  product id, the first entry: a product that the collaborative source lists comes out
  with the source tag \<open>collaborative\<close> and 0.6 times the score of its first
  collaborative entry, every other product with the tag \<open>content\<close>.
\<close>

theorem hybrid_blend:
  assumes "0 \<le> n"
  shows "length (get_hybrid_recommendations rt eng user_id prefs n) \<le> nat n \<and>
     distinct (map p_id (get_hybrid_recommendations rt eng user_id prefs n)) \<and>
     length (finish_recommendations eng
        (collaborative_entries (Inr cf_recs) @ content_entries matching_products) n) \<le> nat n \<and>
     distinct (map p_id (finish_recommendations eng
        (collaborative_entries (Inr cf_recs) @ content_entries matching_products) n)) \<and>
     (\<forall>out \<in> set (finish_recommendations eng
        (collaborative_entries (Inr cf_recs) @ content_entries matching_products) n).
        if p_id out \<in> fst ` set cf_recs
        then recommendation_source out = ''collaborative'' \<and>
             (\<exists>s. find (\<lambda>x. fst x = p_id out) cf_recs = Some (p_id out, s) \<and>
                  recommendation_score out = s * 0.6)
        else recommendation_source out = ''content'')"
proof -
  let ?recs = "collaborative_entries (Inr cf_recs) @ content_entries matching_products"
  have 1: "length (get_hybrid_recommendations rt eng user_id prefs n) \<le> nat n"
    unfolding get_hybrid_recommendations_def
    by (rule finish_recommendations_length [OF assms])
  have 2: "distinct (map p_id (get_hybrid_recommendations rt eng user_id prefs n))"
    unfolding get_hybrid_recommendations_def
    by (rule finish_recommendations_distinct)
  have 3: "length (finish_recommendations eng ?recs n) \<le> nat n"
    by (rule finish_recommendations_length [OF assms])
  have 4: "distinct (map p_id (finish_recommendations eng ?recs n))"
    by (rule finish_recommendations_distinct)
  have 5: "\<forall>out \<in> set (finish_recommendations eng ?recs n).
        if p_id out \<in> fst ` set cf_recs
        then recommendation_source out = ''collaborative'' \<and>
             (\<exists>s. find (\<lambda>x. fst x = p_id out) cf_recs = Some (p_id out, s) \<and>
                  recommendation_score out = s * 0.6)
        else recommendation_source out = ''content''"
  proof
    fix out assume "out \<in> set (finish_recommendations eng ?recs n)"
    from finish_recommendations_entry [OF this] obtain r
      where f: "find (\<lambda>x. sc_product_id x = p_id out) ?recs = Some r"
        and sc: "recommendation_score out = sc_score r"
        and so: "recommendation_source out = sc_source r" by blast
    show "if p_id out \<in> fst ` set cf_recs
        then recommendation_source out = ''collaborative'' \<and>
             (\<exists>s. find (\<lambda>x. fst x = p_id out) cf_recs = Some (p_id out, s) \<and>
                  recommendation_score out = s * 0.6)
        else recommendation_source out = ''content''"
    proof (cases "find (\<lambda>x. fst x = p_id out) cf_recs")
      case None
      then have notin: "p_id out \<notin> fst ` set cf_recs" by (simp add: find_fst_None)
      from None f have "find (\<lambda>x. sc_product_id x = p_id out)
          (content_entries matching_products) = Some r"
        by (simp add: find_append find_collaborative_entries)
      from find_content_entries [OF this] so notin show ?thesis by simp
    next
      case (Some x)
      then have isin: "p_id out \<in> fst ` set cf_recs"
        using find_fst_None [of "p_id out" cf_recs] by simp
      from find_fst [OF Some] have x: "x = (p_id out, snd x)" by (cases x) simp
      from Some f have "r = \<lparr>sc_product_id = fst x, sc_score = snd x * 0.6,
                        sc_source = ''collaborative''\<rparr>"
        by (simp add: find_append find_collaborative_entries)
      with sc so have "recommendation_source out = ''collaborative''"
        and "recommendation_score out = snd x * 0.6" by simp_all
      with isin Some x show ?thesis by metis
    qed
  qed
  from 1 2 3 4 5 show ?thesis by blast
qed

theorem hybrid_blend_witness:
  "(0::int) \<le> 20 \<and>
   length (get_hybrid_recommendations sample_runtime sample_engine 7 sample_profile 20) \<le> 20 \<and>
   map p_id (get_hybrid_recommendations sample_runtime sample_engine 7 sample_profile 20) = [8, 1] \<and>
   map (\<lambda>out. (p_id out, recommendation_source out, recommendation_score out))
     (finish_recommendations sample_engine
        (collaborative_entries (Inr [(1, 10)]) @ content_entries [(1, 50), (3, 20)]) 20)
     = [(3, ''content'', 8), (1, ''collaborative'', 6)]"
proof -
  have a: "(0::int) \<le> 20" by simp
  have "map p_id (get_hybrid_recommendations sample_runtime sample_engine 7 sample_profile 20)
      = [8, 1]"
    by code_simp
  moreover have "map (\<lambda>out. (p_id out, recommendation_source out, recommendation_score out))
     (finish_recommendations sample_engine
        (collaborative_entries (Inr [(1, 10)]) @ content_entries [(1, 50), (3, 20)]) 20)
     = [(3, ''content'', 8), (1, ''collaborative'', 6)]"
    by code_simp
  ultimately show ?thesis
    using hybrid_blend [OF a, of sample_runtime sample_engine 7 sample_profile] by simp
qed


section \<open>The entry point of the engine\<close>










section \<open>The pseudo-recommendations of get_recommendations\<close>










lemma upt_two: "2 \<le> n \<Longrightarrow> [0..<n] = 0 # 1 # [2..<n]"
  by (simp add: upt_rec [of 0] upt_rec [of "Suc 0"] numeral_2_eq_2)

lemma rec_at_0: "\<exists>r. rec_at rt p 0 = Inr r"
  by (simp add: rec_at_def style_color_at_def bind_e_def)

lemma rec_at_1_unknown_color:
  "dict_get (u_color_pref p) ''black'' \<notin> set colors \<Longrightarrow> rec_at rt p 1 = Inl ValueError"
proof -
  assume "dict_get (u_color_pref p) ''black'' \<notin> set colors"
  then have "get_loc colors (dict_get (u_color_pref p) ''black'') = None"
    by (simp add: get_loc_None_iff)
  then show ?thesis
    by (simp add: rec_at_def style_color_at_def py_index_def bind_e_def)
qed

text \<open>
  C7 fails on the code. The second entry is built with \<open>colors.index(user_color)\<close>,
  which raises ValueError when the preferred color is not one of the ten colors of the
  palette: for every such profile and every \<open>k \<ge> 2\<close> the branch raises instead of
  returning \<open>k\<close> entries.
\<close>

theorem get_recommendations_unknown_color:
  assumes "dict_get (u_color_pref p) ''black'' \<notin> set colors" and "2 \<le> k"
  shows "get_recommendations rt p k = Inl ValueError"
proof -
  from assms(2) have "[0..<nat k] = 0 # 1 # [2..<nat k]"
    by (intro upt_two) simp
  moreover obtain r where "rec_at rt p 0 = Inr r" using rec_at_0 by blast
  moreover note rec_at_1_unknown_color [OF assms(1), of rt]
  ultimately show ?thesis
    by (simp add: get_recommendations_def)
qed

theorem get_recommendations_unknown_color_witness:
  "dict_get (u_color_pref orange_profile) ''black'' \<notin> set colors \<and> (2::int) \<le> 2 \<and>
   get_recommendations sample_runtime orange_profile 2 = Inl ValueError"
proof -
  have a: "dict_get (u_color_pref orange_profile) ''black'' \<notin> set colors"
    by (simp add: orange_profile_def sample_profile_def dict_get_def colors_def)
  have b: "(2::int) \<le> 2" by simp
  from get_recommendations_unknown_color [OF a b, of sample_runtime] a b
  show ?thesis by blast
qed

text \<open>
  C9 fails on the code. The seed uses \<open>hash\<close> of the preferred color and style, and
  Python salts string hashes per interpreter process: the same profile and the same
  \<open>k\<close> give different scores in two processes whose hashes differ.
\<close>

theorem get_recommendations_hash_seed:
  "map_sum id (map r_score) (get_recommendations sample_runtime sample_profile 1)
     = Inr [17927 / 10000] \<and>
   map_sum id (map r_score) (get_recommendations other_runtime sample_profile 1)
     = Inr [17967 / 10000] \<and>
   get_recommendations sample_runtime sample_profile 1
     \<noteq> get_recommendations other_runtime sample_profile 1"
proof -
  have a: "map_sum id (map r_score) (get_recommendations sample_runtime sample_profile 1)
     = Inr [17927 / 10000]"
    by code_simp
  have b: "map_sum id (map r_score) (get_recommendations other_runtime sample_profile 1)
     = Inr [17967 / 10000]"
    by code_simp
  from a b have "get_recommendations sample_runtime sample_profile 1
     \<noteq> get_recommendations other_runtime sample_profile 1"
    by auto
  with a b show ?thesis by blast
qed


section \<open>The pseudo-recommendations: shape of the entries and dependence on the run time\<close>

lemma next_differs:
  assumes "distinct xs" and "1 < length xs" and "get_loc xs x = Some j"
  shows "xs ! ((j + 1) mod length xs) \<noteq> x \<and> xs ! ((j + 1) mod length xs) \<in> set xs"
proof -
  from get_loc_Some [OF assms(3)] have j: "j < length xs" and x: "xs ! j = x" by simp_all
  from assms(2) have pos: "0 < length xs" by (cases xs) auto
  then have lt: "(j + 1) mod length xs < length xs" by (rule mod_less_divisor)
  have "(j + 1) mod length xs \<noteq> j"
  proof (cases "j + 1 < length xs")
    case True
    then show ?thesis by simp
  next
    case False
    with j have "j + 1 = length xs" by simp
    then have "(j + 1) mod length xs = 0" by simp
    moreover from \<open>j + 1 = length xs\<close> assms(2) have "j \<noteq> 0" by simp
    ultimately show ?thesis by simp
  qed
  with assms(1) lt j have "xs ! ((j + 1) mod length xs) \<noteq> xs ! j"
    by (simp add: nth_eq_iff_index_eq)
  with x lt show ?thesis by simp
qed

lemma distinct_colors: "distinct colors" and length_colors: "length colors = 10"
  by (simp_all add: colors_def)

lemma distinct_styles: "distinct styles" and length_styles: "length styles = 8"
  by (simp_all add: styles_def)

lemma preferred_styles_nonempty: "preferred_styles_of rt age budget \<noteq> []"
proof -
  have "set (preferred_styles_of rt age budget) \<noteq> {}"
    by (simp add: preferred_styles_of_def age_styles_of_def)
  then show ?thesis by auto
qed

lemma style_color_at_known:
  assumes "uc \<in> set colors" and "us \<in> set styles"
  shows "\<exists>st co. style_color_at rt us uc age budget i = Inr (st, co) \<and>
     (i = 0 \<longrightarrow> st = us \<and> co = uc) \<and>
     (i = 1 \<longrightarrow> st = us \<and> co \<noteq> uc \<and> co \<in> set colors) \<and>
     (i = 2 \<longrightarrow> st \<noteq> us \<and> st \<in> set styles \<and> co = uc) \<and>
     (3 \<le> i \<longrightarrow> st \<in> set (age_styles_of age @ budget_styles_of budget) \<and>
                co = colors ! ((i * 2) mod length colors))"
proof -
  consider "i = 0" | "i = 1" | "i = 2" | "3 \<le> i" by linarith
  then show ?thesis
  proof cases
    case 1
    then show ?thesis by (simp add: style_color_at_def)
  next
    case 2
    from get_loc_in [OF assms(1)] obtain j where j: "get_loc colors uc = Some j" ..
    from next_differs [OF distinct_colors _ j] have
      "colors ! ((j + 1) mod length colors) \<noteq> uc \<and> colors ! ((j + 1) mod length colors) \<in> set colors"
      by (simp add: length_colors)
    with 2 j show ?thesis
      by (simp add: style_color_at_def py_index_def)
  next
    case 3
    from get_loc_in [OF assms(2)] obtain j where j: "get_loc styles us = Some j" ..
    from next_differs [OF distinct_styles _ j] have
      "styles ! ((j + 1) mod length styles) \<noteq> us \<and> styles ! ((j + 1) mod length styles) \<in> set styles"
      by (simp add: length_styles)
    with 3 j show ?thesis
      by (simp add: style_color_at_def py_index_def)
  next
    case 4
    let ?ps = "preferred_styles_of rt age budget"
    have ne: "?ps \<noteq> []" by (rule preferred_styles_nonempty)
    then have "?ps ! (i mod length ?ps) \<in> set ?ps" by simp
    then have "?ps ! (i mod length ?ps) \<in> set (age_styles_of age @ budget_styles_of budget)"
      by (simp add: preferred_styles_of_def)
    with 4 ne show ?thesis
      by (simp add: style_color_at_def Let_def)
  qed
qed

text \<open>
  With a preferred color of the palette and a preferred style of the style list, the
  branch raises nothing and returns \<open>k\<close> entries of the stated shape.
\<close>

lemma get_recommendations_known_palette:
  assumes "dict_get (u_color_pref p) ''black'' \<in> set colors"
    and "dict_get (u_style_pref p) ''casual'' \<in> set styles"
  shows "\<exists>recs. get_recommendations rt p k = Inr recs \<and> length recs = nat k \<and>
     (\<forall>i < nat k.
        (i = 0 \<longrightarrow> r_style (recs ! i) = dict_get (u_style_pref p) ''casual'' \<and>
                   r_color (recs ! i) = dict_get (u_color_pref p) ''black'') \<and>
        (i = 1 \<longrightarrow> r_style (recs ! i) = dict_get (u_style_pref p) ''casual'' \<and>
                   r_color (recs ! i) \<noteq> dict_get (u_color_pref p) ''black'' \<and>
                   r_color (recs ! i) \<in> set colors) \<and>
        (i = 2 \<longrightarrow> r_style (recs ! i) \<noteq> dict_get (u_style_pref p) ''casual'' \<and>
                   r_style (recs ! i) \<in> set styles \<and>
                   r_color (recs ! i) = dict_get (u_color_pref p) ''black'') \<and>
        (3 \<le> i \<longrightarrow>
           r_style (recs ! i) \<in> set (age_styles_of (dict_get (u_age p) 25)
                                      @ budget_styles_of (dict_get (u_budget p) 1000)) \<and>
           r_color (recs ! i) = colors ! ((i * 2) mod length colors)))"
proof -
  let ?us = "dict_get (u_style_pref p) ''casual''"
  let ?uc = "dict_get (u_color_pref p) ''black''"
  let ?age = "dict_get (u_age p) 25"
  let ?bud = "dict_get (u_budget p) 1000"
  let ?g = "\<lambda>i. projr (rec_at rt p i)"
  have total: "rec_at rt p i = Inr (?g i)" for i
  proof -
    from style_color_at_known [OF assms, of rt ?age ?bud i] obtain st co
      where "style_color_at rt ?us ?uc ?age ?bud i = Inr (st, co)" by blast
    then show ?thesis by (simp add: rec_at_def)
  qed
  have res: "get_recommendations rt p k = Inr (map ?g [0..<nat k])"
    unfolding get_recommendations_def by (rule map_e_Inr) (rule total)
  let ?recs = "map ?g [0..<nat k]"
  have shape: "(i = 0 \<longrightarrow> r_style (?recs ! i) = ?us \<and> r_color (?recs ! i) = ?uc) \<and>
        (i = 1 \<longrightarrow> r_style (?recs ! i) = ?us \<and> r_color (?recs ! i) \<noteq> ?uc \<and>
                   r_color (?recs ! i) \<in> set colors) \<and>
        (i = 2 \<longrightarrow> r_style (?recs ! i) \<noteq> ?us \<and> r_style (?recs ! i) \<in> set styles \<and>
                   r_color (?recs ! i) = ?uc) \<and>
        (3 \<le> i \<longrightarrow>
           r_style (?recs ! i) \<in> set (age_styles_of ?age @ budget_styles_of ?bud) \<and>
           r_color (?recs ! i) = colors ! ((i * 2) mod length colors))"
    if i: "i < nat k" for i
  proof -
    from style_color_at_known [OF assms, of rt ?age ?bud i] obtain st co
      where sc: "style_color_at rt ?us ?uc ?age ?bud i = Inr (st, co)"
        and pr: "(i = 0 \<longrightarrow> st = ?us \<and> co = ?uc) \<and>
          (i = 1 \<longrightarrow> st = ?us \<and> co \<noteq> ?uc \<and> co \<in> set colors) \<and>
          (i = 2 \<longrightarrow> st \<noteq> ?us \<and> st \<in> set styles \<and> co = ?uc) \<and>
          (3 \<le> i \<longrightarrow> st \<in> set (age_styles_of ?age @ budget_styles_of ?bud) \<and>
                co = colors ! ((i * 2) mod length colors))"
      by blast
    have nth: "?recs ! i = ?g i" using i by simp
    have rs: "r_style (?recs ! i) = st" and rc: "r_color (?recs ! i) = co"
      unfolding nth using sc by (simp_all add: rec_at_def)
    show ?thesis unfolding rs rc by (rule pr)
  qed
  have "length ?recs = nat k" by simp
  with res shape show ?thesis by blast
qed

text \<open>
  The result depends on the run time only through the two hash values modulo 100 and
  the enumeration of the set of preferred styles.
\<close>

lemma get_recommendations_runtime:
  assumes "\<bar>str_hash rt (dict_get (u_color_pref p) ''black'')\<bar> mod 100
         = \<bar>str_hash rt' (dict_get (u_color_pref p) ''black'')\<bar> mod 100"
    and "\<bar>str_hash rt (dict_get (u_style_pref p) ''streetwear'')\<bar> mod 100
         = \<bar>str_hash rt' (dict_get (u_style_pref p) ''streetwear'')\<bar> mod 100"
    and "preferred_styles_of rt (dict_get (u_age p) 25) (dict_get (u_budget p) 1000)
         = preferred_styles_of rt' (dict_get (u_age p) 25) (dict_get (u_budget p) 1000)"
  shows "get_recommendations rt p k = get_recommendations rt' p k"
proof -
  have b: "base_score rt p = base_score rt' p"
    unfolding base_score_def by (simp only: assms(1,2))
  have s: "style_color_at rt us uc (dict_get (u_age p) 25) (dict_get (u_budget p) 1000) i
      = style_color_at rt' us uc (dict_get (u_age p) 25) (dict_get (u_budget p) 1000) i"
    for us uc i
    unfolding style_color_at_def by (simp only: assms(3))
  have "rec_at rt p i = rec_at rt' p i" for i
    unfolding rec_at_def by (simp only: b s)
  then have "rec_at rt p = rec_at rt' p" by (rule ext)
  then show ?thesis
    unfolding get_recommendations_def by (rule arg_cong)
qed

end
